theory Spec2Isabelle
  imports Complex_Main
begin

section \<open>Emergency dispatch and assignment engine\<close>

text \<open>
  A shallow embedding of the dispatch core of the ambulance backend: the hospital matcher
  (\<open>EmergencyService.findNearbyHospitals\<close>), request creation and acceptance, driver
  assignment (\<open>HospitalService\<close>) and the driver's own operations (\<open>DriverService\<close>).

  The relational store is a record of tables, each table a list of rows in storage order,
  with the columns and types that the migration \<open>001_initial_schema.sql\<close> declares.
  A \<open>SELECT ... WHERE\<close> is a \<open>filter\<close>, \<open>rows[0]\<close> is the head of the filtered list,
  an \<open>UPDATE ... WHERE id = x\<close> rewrites every row with that id, and an \<open>INSERT\<close> appends a
  row. \<open>NOW()\<close> and the key that \<open>uuid_generate_v4()\<close> draws are arguments of the
  operation that needs them.

  The store raises an error where PostgreSQL does for the statements of the services: when
  the text passed for a \<open>UUID\<close> column is not a uuid, when a statement names a column that
  the table does not have or a label that the enum does not have, and when a primary key
  is taken. Connection failures of the store are not modelled.
\<close>

subsection \<open>Data model\<close>

text \<open>
  The columns \<open>id\<close>, \<open>user_id\<close>, \<open>hospital_id\<close>, \<open>emergency_id\<close> and \<open>driver_id\<close>
  have type \<open>UUID\<close>: a value of 128 bits, here its number.
\<close>

type_synonym uuid = nat
type_synonym timestamp = nat

text \<open>
  The services pass ids to the store as text, the way they arrive in the URL, the body or
  the token, and the store converts the text to a uuid: 32 hexadecimal digits of either
  case, an optional hyphen after each group of four digits but the last, and optionally
  braces around the whole. Text of any other form is rejected
  (\<open>invalid input syntax for type uuid\<close>).
\<close>

definition hex_digits :: "(char \<times> nat) list" where
  "hex_digits =
     [(CHR ''0'', 0), (CHR ''1'', 1), (CHR ''2'', 2), (CHR ''3'', 3), (CHR ''4'', 4),
      (CHR ''5'', 5), (CHR ''6'', 6), (CHR ''7'', 7), (CHR ''8'', 8), (CHR ''9'', 9),
      (CHR ''a'', 10), (CHR ''b'', 11), (CHR ''c'', 12), (CHR ''d'', 13), (CHR ''e'', 14),
      (CHR ''f'', 15),
      (CHR ''A'', 10), (CHR ''B'', 11), (CHR ''C'', 12), (CHR ''D'', 13), (CHR ''E'', 14),
      (CHR ''F'', 15)]"

text \<open>
  \<open>uuid_groups n acc src\<close> reads \<open>n\<close> groups of four digits from \<open>src\<close> onto the number
  \<open>acc\<close> and returns the number together with the text that is left.
\<close>

fun uuid_groups :: "nat \<Rightarrow> nat \<Rightarrow> string \<Rightarrow> (nat \<times> string) option" where
  "uuid_groups 0 acc src = Some (acc, src)"
| "uuid_groups (Suc n) acc (c1 # c2 # c3 # c4 # src) =
     (case (map_of hex_digits c1, map_of hex_digits c2,
            map_of hex_digits c3, map_of hex_digits c4) of
        (Some d1, Some d2, Some d3, Some d4) \<Rightarrow>
          uuid_groups n (acc * 65536 + d1 * 4096 + d2 * 256 + d3 * 16 + d4)
            (if 0 < n \<and> take 1 src = ''-'' then drop 1 src else src)
      | _ \<Rightarrow> None)"
| "uuid_groups (Suc n) acc src = None"

definition uuid_in :: "string \<Rightarrow> uuid option" where
  "uuid_in source =
     (if take 1 source = ''{''
      then (case uuid_groups 8 0 (drop 1 source) of
              Some (u, rest) \<Rightarrow> if rest = ''}'' then Some u else None
            | None \<Rightarrow> None)
      else (case uuid_groups 8 0 source of
              Some (u, rest) \<Rightarrow> if rest = [] then Some u else None
            | None \<Rightarrow> None))"

text \<open>\<open>ApiError\<close> of the error-handling middleware: an HTTP status code and a message.\<close>

datatype ApiError = ApiError (statusCode: nat) (message: string)

text \<open>
  What a \<open>try\<close> block can throw: an \<open>ApiError\<close> raised by the service itself, or an
  error raised by the database driver.
\<close>

datatype exn = Api ApiError | PgError string

text \<open>
  The handler shared by the transactional services:
  \<open>if (error instanceof ApiError) throw error; throw new ApiError(500, msg)\<close>.
\<close>

definition rethrow :: "string \<Rightarrow> exn \<Rightarrow> ApiError" where
  "rethrow msg e = (case e of Api a \<Rightarrow> a | PgError _ \<Rightarrow> ApiError 500 msg)"

text \<open>A text parameter compared with, or stored in, a \<open>UUID\<close> column.\<close>

definition uuid_param :: "string \<Rightarrow> exn + uuid" where
  "uuid_param source =
     (case uuid_in source of
        None \<Rightarrow> Inl (PgError ''invalid input syntax for type uuid'')
      | Some u \<Rightarrow> Inr u)"

text \<open>
  The enum \<open>emergency_status\<close> of the migration. It is the type of the \<open>status\<close> column of
  \<open>emergency_requests\<close> and also of the \<open>status\<close> column of \<open>emergency_assignments\<close>.
\<close>

datatype emergency_status =
  pending | accepted | assigned | in_progress | completed | cancelled

definition emergency_status_labels :: "string list" where
  "emergency_status_labels =
     [''pending'', ''accepted'', ''assigned'', ''in_progress'', ''completed'', ''cancelled'']"

text \<open>The label of a status, as a query returns it, and the conversion of a label.\<close>

fun status_label :: "emergency_status \<Rightarrow> string" where
  "status_label pending = ''pending''"
| "status_label accepted = ''accepted''"
| "status_label assigned = ''assigned''"
| "status_label in_progress = ''in_progress''"
| "status_label completed = ''completed''"
| "status_label cancelled = ''cancelled''"

definition emergency_status_in :: "string \<Rightarrow> emergency_status option" where
  "emergency_status_in label =
     (if label = ''pending'' then Some pending
      else if label = ''accepted'' then Some accepted
      else if label = ''assigned'' then Some assigned
      else if label = ''in_progress'' then Some in_progress
      else if label = ''completed'' then Some completed
      else if label = ''cancelled'' then Some cancelled
      else None)"

record hospital_row =
  h_id :: uuid
  h_user_id :: uuid
  h_name :: string
  h_address :: string
  h_latitude :: "real option"
  h_longitude :: "real option"
  h_emergency_capacity :: int
  h_is_active :: bool

text \<open>
  A driver row. The services join \<open>drivers\<close> with \<open>users\<close> on \<open>user_id\<close> to read the
  driver's name and phone; \<open>user_id\<close> is a non-null foreign key, so the join keeps every
  driver row and the \<open>users\<close> table is left out.
\<close>

record driver_row =
  d_id :: uuid
  d_user_id :: uuid
  d_is_available :: bool
  d_is_approved :: bool
  d_is_active :: bool
  d_updated_at :: timestamp

record request_row =
  r_id :: uuid
  r_user_id :: uuid
  r_emergency_type :: string
  r_description :: string
  r_pickup_address :: string
  r_pickup_latitude :: real
  r_pickup_longitude :: real
  r_status :: emergency_status
  r_hospital_id :: "uuid option"
  r_created_at :: timestamp
  r_updated_at :: timestamp

text \<open>
  A row of \<open>emergency_assignments\<close>, with the columns of the migration:
  \<open>id, emergency_id, driver_id, assigned_at, accepted_at, pickup_at, completed_at,
  status, notes\<close>.
\<close>

definition emergency_assignments_columns :: "string list" where
  "emergency_assignments_columns =
     [''id'', ''emergency_id'', ''driver_id'', ''assigned_at'', ''accepted_at'',
      ''pickup_at'', ''completed_at'', ''status'', ''notes'']"

record assignment_row =
  a_id :: uuid
  a_emergency_id :: uuid
  a_driver_id :: uuid
  a_assigned_at :: "timestamp option"
  a_accepted_at :: "timestamp option"
  a_pickup_at :: "timestamp option"
  a_completed_at :: "timestamp option"
  a_status :: emergency_status
  a_notes :: "string option"

record db =
  hospitals :: "hospital_row list"
  drivers :: "driver_row list"
  emergency_requests :: "request_row list"
  emergency_assignments :: "assignment_row list"

subsection \<open>Transactions\<close>

text \<open>
  Every mutating service runs \<open>BEGIN\<close>, its statements, then \<open>COMMIT\<close>; any exception
  reaches the \<open>catch\<close> block, which runs \<open>ROLLBACK\<close> and rethrows. The body works on the
  transaction's own copy of the store; \<open>transaction\<close> publishes that copy on commit and
  returns the store it started from on rollback.
\<close>

definition transaction ::
  "string \<Rightarrow> (db \<Rightarrow> exn + 'a \<times> db) \<Rightarrow> db \<Rightarrow> (ApiError + 'a) \<times> db" where
  "transaction msg body s =
     (case body s of
        Inl e \<Rightarrow> (Inl (rethrow msg e), s)
      | Inr (res, s') \<Rightarrow> (Inr res, s'))"

subsection \<open>Updates by primary key\<close>

text \<open>
  \<open>UPDATE t SET ... WHERE id = x\<close> on each of the three tables the services write: the
  rows with that id are rewritten by \<open>f\<close>, all other rows and tables stay as they are.
\<close>

definition update_requests :: "uuid \<Rightarrow> (request_row \<Rightarrow> request_row) \<Rightarrow> db \<Rightarrow> db" where
  "update_requests x f s =
     s\<lparr>emergency_requests := map (\<lambda>r. if r_id r = x then f r else r) (emergency_requests s)\<rparr>"

definition update_drivers :: "uuid \<Rightarrow> (driver_row \<Rightarrow> driver_row) \<Rightarrow> db \<Rightarrow> db" where
  "update_drivers x f s =
     s\<lparr>drivers := map (\<lambda>d. if d_id d = x then f d else d) (drivers s)\<rparr>"

definition update_assignments :: "uuid \<Rightarrow> (assignment_row \<Rightarrow> assignment_row) \<Rightarrow> db \<Rightarrow> db" where
  "update_assignments x f s =
     s\<lparr>emergency_assignments :=
         map (\<lambda>a. if a_id a = x then f a else a) (emergency_assignments s)\<rparr>"

subsection \<open>Hospital service\<close>

text \<open>
  \<open>HospitalService.acceptEmergencyRequest\<close>, first its two \<open>SELECT\<close>s with the checks
  that follow them: the request by id, which must be pending, then the hospital of the
  calling user. They yield the key of the request and the key of the hospital.
\<close>

definition acceptEmergencyRequest_guards :: "string \<Rightarrow> string \<Rightarrow> db \<Rightarrow> exn + uuid \<times> uuid" where
  "acceptEmergencyRequest_guards requestId hospitalId s =
     (case uuid_param requestId of
        Inl e \<Rightarrow> Inl e
      | Inr rid \<Rightarrow>
         (case filter (\<lambda>r. r_id r = rid) (emergency_requests s) of
            [] \<Rightarrow> Inl (Api (ApiError 404 ''Emergency request not found''))
          | request # _ \<Rightarrow>
              if r_status request \<noteq> pending
              then Inl (Api (ApiError 400 ''Emergency request is no longer pending''))
              else
               (case uuid_param hospitalId of
                  Inl e \<Rightarrow> Inl e
                | Inr uid \<Rightarrow>
                   (case filter (\<lambda>h. h_user_id h = uid) (hospitals s) of
                      [] \<Rightarrow> Inl (Api (ApiError 404 ''Hospital not found''))
                    | hospital # _ \<Rightarrow> Inr (rid, h_id hospital)))))"

text \<open>
  Then its \<open>UPDATE emergency_requests SET status = 'accepted', hospital_id = $1,
  updated_at = NOW() WHERE id = $2\<close>.
\<close>

definition acceptEmergencyRequest_update :: "timestamp \<Rightarrow> uuid \<Rightarrow> uuid \<Rightarrow> db \<Rightarrow> db" where
  "acceptEmergencyRequest_update now rid hid s =
     update_requests rid
       (\<lambda>r. r\<lparr>r_status := accepted, r_hospital_id := Some hid, r_updated_at := now\<rparr>) s"

text \<open>
  The body of the \<open>try\<close> block: the checks, then the update. The response carries the
  \<open>requestId\<close> as it was passed; it also lists the approved drivers, and that read-only
  listing is left out of the result.
\<close>

definition acceptEmergencyRequest_body ::
  "timestamp \<Rightarrow> string \<Rightarrow> string \<Rightarrow> db \<Rightarrow> exn + string \<times> db" where
  "acceptEmergencyRequest_body now requestId hospitalId s =
     (case acceptEmergencyRequest_guards requestId hospitalId s of
        Inl e \<Rightarrow> Inl e
      | Inr (rid, hid) \<Rightarrow> Inr (requestId, acceptEmergencyRequest_update now rid hid s))"

definition acceptEmergencyRequest ::
  "timestamp \<Rightarrow> string \<Rightarrow> string \<Rightarrow> db \<Rightarrow> (ApiError + string) \<times> db" where
  "acceptEmergencyRequest now requestId hospitalId =
     transaction ''Failed to accept emergency request''
       (acceptEmergencyRequest_body now requestId hospitalId)"

text \<open>
  \<open>INSERT INTO emergency_assignments (emergency_id, driver_id, assigned_at, status)
  VALUES ($1, $2, NOW(), 'assigned') RETURNING id\<close>, with \<open>newId\<close> the generated key;
  the columns it does not name get their default, which is null.
\<close>

definition insert_assignment ::
  "timestamp \<Rightarrow> uuid \<Rightarrow> uuid \<Rightarrow> uuid \<Rightarrow> db \<Rightarrow> exn + uuid \<times> db" where
  "insert_assignment now newId rid did s =
     (if newId \<in> set (map a_id (emergency_assignments s))
      then Inl (PgError ''duplicate key value violates unique constraint'')
      else Inr (newId,
        s\<lparr>emergency_assignments := emergency_assignments s @
            [\<lparr>a_id = newId, a_emergency_id = rid, a_driver_id = did,
              a_assigned_at = Some now, a_accepted_at = None, a_pickup_at = None,
              a_completed_at = None, a_status = assigned, a_notes = None\<rparr>]\<rparr>))"

record AssignDriverResponse =
  res_requestId :: string
  res_assignmentId :: uuid
  res_driverId :: uuid

text \<open>
  \<open>HospitalService.assignDriverToEmergency\<close>: the hospital of the calling user, the
  request by id and hospital, the approved and active driver by id, each with its check,
  then the three writes.
\<close>

definition assignDriverToEmergency_body ::
  "timestamp \<Rightarrow> uuid \<Rightarrow> string \<Rightarrow> string \<Rightarrow> string \<Rightarrow> db \<Rightarrow>
   exn + AssignDriverResponse \<times> db" where
  "assignDriverToEmergency_body now newId requestId hospitalId driverId s =
     (case uuid_param hospitalId of
        Inl e \<Rightarrow> Inl e
      | Inr uid \<Rightarrow>
     (case filter (\<lambda>h. h_user_id h = uid) (hospitals s) of
        [] \<Rightarrow> Inl (Api (ApiError 404 ''Hospital not found''))
      | hospital # _ \<Rightarrow>
     (case uuid_param requestId of
        Inl e \<Rightarrow> Inl e
      | Inr rid \<Rightarrow>
     (case filter (\<lambda>r. r_id r = rid \<and> r_hospital_id r = Some (h_id hospital))
                  (emergency_requests s) of
        [] \<Rightarrow> Inl (Api (ApiError 404
                ''Emergency request not found or not assigned to this hospital''))
      | request # _ \<Rightarrow>
         if r_status request \<noteq> accepted
         then Inl (Api (ApiError 400
                ''Emergency request must be in accepted status to assign a driver''))
         else
     (case uuid_param driverId of
        Inl e \<Rightarrow> Inl e
      | Inr did \<Rightarrow>
     (case filter (\<lambda>d. d_id d = did \<and> d_is_approved d \<and> d_is_active d) (drivers s) of
        [] \<Rightarrow> Inl (Api (ApiError 404 ''Driver not found or not approved''))
      | driver # _ \<Rightarrow>
         if \<not> d_is_available driver
         then Inl (Api (ApiError 400 ''Driver is currently unavailable''))
         else
          (let s1 = update_requests rid
                      (\<lambda>r. r\<lparr>r_status := assigned, r_updated_at := now\<rparr>) s
           in case insert_assignment now newId rid did s1 of
                Inl e \<Rightarrow> Inl e
              | Inr (assignmentId, s2) \<Rightarrow>
                  Inr (\<lparr>res_requestId = requestId,
                        res_assignmentId = assignmentId,
                        res_driverId = d_id driver\<rparr>,
                       update_drivers did
                         (\<lambda>d. d\<lparr>d_is_available := False, d_updated_at := now\<rparr>)
                         s2))))))))"

definition assignDriverToEmergency ::
  "timestamp \<Rightarrow> uuid \<Rightarrow> string \<Rightarrow> string \<Rightarrow> string \<Rightarrow> db \<Rightarrow>
   (ApiError + AssignDriverResponse) \<times> db" where
  "assignDriverToEmergency now newId requestId hospitalId driverId =
     transaction ''Failed to assign driver to emergency''
       (assignDriverToEmergency_body now newId requestId hospitalId driverId)"

subsection \<open>Driver service\<close>

text \<open>
  The labels that \<open>updateAvailabilityStatus\<close> and \<open>getCurrentAssignment\<close> select with
  \<open>status IN ('assigned', 'en_route', 'arrived')\<close>: the non-terminal ones.
\<close>

definition activeAssignmentQuery_labels :: "string list" where
  "activeAssignmentQuery_labels = [''assigned'', ''en_route'', ''arrived'']"

definition active_status :: "emergency_status \<Rightarrow> bool" where
  "active_status st \<longleftrightarrow> status_label st \<in> set activeAssignmentQuery_labels"

text \<open>
  \<open>SELECT id FROM emergency_assignments WHERE driver_id = $1 AND status IN ('assigned',
  'en_route', 'arrived') LIMIT 1\<close>. The store converts the three labels to the type of
  the \<open>status\<close> column before it looks at any row, and raises when one of them is not a
  label of that type.
\<close>

definition activeAssignmentQuery :: "uuid \<Rightarrow> db \<Rightarrow> exn + assignment_row list" where
  "activeAssignmentQuery driver s =
     (if \<not> set activeAssignmentQuery_labels \<subseteq> set emergency_status_labels
      then Inl (PgError ''invalid input value for enum emergency_status'')
      else Inr (take 1
             (filter (\<lambda>a. a_driver_id a = driver \<and> active_status (a_status a))
                     (emergency_assignments s))))"

text \<open>\<open>DriverService.updateAvailabilityStatus\<close>; \<open>driverId\<close> is the caller's user id.\<close>

definition updateAvailabilityStatus_body ::
  "timestamp \<Rightarrow> string \<Rightarrow> bool \<Rightarrow> db \<Rightarrow> exn + bool \<times> db" where
  "updateAvailabilityStatus_body now driverId isAvailable s =
     (case uuid_param driverId of
        Inl e \<Rightarrow> Inl e
      | Inr uid \<Rightarrow>
     (case filter (\<lambda>d. d_user_id d = uid) (drivers s) of
        [] \<Rightarrow> Inl (Api (ApiError 404 ''Driver not found''))
      | driver # _ \<Rightarrow>
         (case (if \<not> isAvailable then activeAssignmentQuery (d_id driver) s else Inr []) of
            Inl e \<Rightarrow> Inl e
          | Inr active \<Rightarrow>
              if active \<noteq> []
              then Inl (Api (ApiError 400
                     ''Cannot change status to unavailable with active assignments''))
              else Inr (isAvailable,
                     update_drivers (d_id driver)
                       (\<lambda>d. d\<lparr>d_is_available := isAvailable, d_updated_at := now\<rparr>) s))))"

definition updateAvailabilityStatus ::
  "timestamp \<Rightarrow> string \<Rightarrow> bool \<Rightarrow> db \<Rightarrow> (ApiError + bool) \<times> db" where
  "updateAvailabilityStatus now driverId isAvailable =
     transaction ''Failed to update driver availability status''
       (updateAvailabilityStatus_body now driverId isAvailable)"

text \<open>
  The transition table of \<open>updateAssignmentStatus\<close>,
  \<open>{assigned: ['en_route'], en_route: ['arrived'], arrived: ['completed']}\<close>, keyed by
  the label of the assignment's status as the store returned it. A label without an entry
  yields \<open>undefined\<close>, here \<open>None\<close>.
\<close>

definition validStatusMap :: "string \<Rightarrow> string list option" where
  "validStatusMap =
     map_of [(''assigned'', [''en_route'']), (''en_route'', [''arrived'']),
             (''arrived'', [''completed''])]"

text \<open>\<open>validStatusMap[assignment.status]?.includes(status)\<close>, read as a truth value.\<close>

definition valid_transition :: "string \<Rightarrow> string \<Rightarrow> bool" where
  "valid_transition current status =
     (case validStatusMap current of None \<Rightarrow> False | Some targets \<Rightarrow> status \<in> set targets)"

text \<open>
  The columns that the \<open>SET\<close> clause assembled by \<open>updateAssignmentStatus\<close> names for a
  new status: \<open>status\<close>, the timestamp column the \<open>if\<close>/\<open>else if\<close> chain appends, and
  \<open>updated_at\<close>.
\<close>

definition updateAssignmentQuery_columns :: "string \<Rightarrow> string list" where
  "updateAssignmentQuery_columns status =
     ''status'' #
     (if status = ''en_route'' then [''en_route_at'']
      else if status = ''arrived'' then [''arrived_at'']
      else if status = ''completed'' then [''completed_at'']
      else []) @
     [''updated_at'']"

text \<open>
  The assembled \<open>UPDATE emergency_assignments SET status = $1, ... WHERE id = $2
  RETURNING status, updated_at\<close>. The store raises when the statement names a column
  that \<open>emergency_assignments\<close> does not have, and when \<open>$1\<close> is not a label of the type
  of \<open>status\<close>; otherwise it writes the columns named.
\<close>

definition update_assignment ::
  "timestamp \<Rightarrow> uuid \<Rightarrow> string \<Rightarrow> db \<Rightarrow> exn + string \<times> db" where
  "update_assignment now aid status s =
     (if \<not> set (updateAssignmentQuery_columns status) \<subseteq> set emergency_assignments_columns
      then Inl (PgError ''column of relation emergency_assignments does not exist'')
      else
        (case emergency_status_in status of
           None \<Rightarrow> Inl (PgError ''invalid input value for enum emergency_status'')
         | Some st \<Rightarrow>
             Inr (status_label st,
               update_assignments aid
                 (\<lambda>a. a\<lparr>a_status := st,
                         a_completed_at :=
                           (if ''completed_at'' \<in> set (updateAssignmentQuery_columns status)
                            then Some now else a_completed_at a)\<rparr>) s)))"

text \<open>
  \<open>DriverService.updateAssignmentStatus\<close>; \<open>driverId\<close> is the caller's user id. On
  \<open>'completed'\<close> the driver and the request are updated before the assignment itself.
\<close>

definition updateAssignmentStatus_body ::
  "timestamp \<Rightarrow> string \<Rightarrow> string \<Rightarrow> string \<Rightarrow> db \<Rightarrow> exn + string \<times> db" where
  "updateAssignmentStatus_body now assignmentId driverId status s =
     (case uuid_param driverId of
        Inl e \<Rightarrow> Inl e
      | Inr uid \<Rightarrow>
     (case filter (\<lambda>d. d_user_id d = uid) (drivers s) of
        [] \<Rightarrow> Inl (Api (ApiError 404 ''Driver not found''))
      | driver # _ \<Rightarrow>
     (case uuid_param assignmentId of
        Inl e \<Rightarrow> Inl e
      | Inr aid \<Rightarrow>
     (case filter (\<lambda>a. a_id a = aid \<and> a_driver_id a = d_id driver)
                  (emergency_assignments s) of
        [] \<Rightarrow> Inl (Api (ApiError 404
                ''Assignment not found or not assigned to this driver''))
      | assignment # _ \<Rightarrow>
         if \<not> valid_transition (status_label (a_status assignment)) status
         then Inl (Api (ApiError 400
                (''Cannot transition from '' @ status_label (a_status assignment) @
                 '' to '' @ status)))
         else
          (let s1 = (if status = ''completed''
                     then update_requests (a_emergency_id assignment)
                            (\<lambda>r. r\<lparr>r_status := completed, r_updated_at := now\<rparr>)
                            (update_drivers (d_id driver)
                               (\<lambda>d. d\<lparr>d_is_available := True, d_updated_at := now\<rparr>) s)
                     else s)
           in update_assignment now aid status s1)))))"

definition updateAssignmentStatus ::
  "timestamp \<Rightarrow> string \<Rightarrow> string \<Rightarrow> string \<Rightarrow> db \<Rightarrow> (ApiError + string) \<times> db" where
  "updateAssignmentStatus now assignmentId driverId status =
     transaction ''Failed to update assignment status''
       (updateAssignmentStatus_body now assignmentId driverId status)"

subsection \<open>Emergency service\<close>

text \<open>
  \<open>calculateDistance\<close> of \<open>locationUtils\<close>, the haversine formula with radius 6371 km,
  over the reals: the rounding of IEEE doubles is not modelled, and nothing proved below
  depends on the value of the distance.
\<close>

definition toRadians :: "real \<Rightarrow> real" where
  "toRadians degrees = degrees * pi / 180"

definition atan2 :: "real \<Rightarrow> real \<Rightarrow> real" where
  "atan2 y x =
     (if 0 < x then arctan (y / x)
      else if x < 0 \<and> 0 \<le> y then arctan (y / x) + pi
      else if x < 0 then arctan (y / x) - pi
      else if 0 < y then pi / 2
      else if y < 0 then - (pi / 2)
      else 0)"

definition calculateDistance :: "real \<Rightarrow> real \<Rightarrow> real \<Rightarrow> real \<Rightarrow> real" where
  "calculateDistance lat1 lon1 lat2 lon2 =
     (let phi1 = toRadians lat1;
          phi2 = toRadians lat2;
          dphi = toRadians (lat2 - lat1);
          dlambda = toRadians (lon2 - lon1);
          a = sin (dphi / 2) * sin (dphi / 2) +
              cos phi1 * cos phi2 * sin (dlambda / 2) * sin (dlambda / 2);
          c = 2 * atan2 (sqrt a) (sqrt (1 - a))
      in 6371 * c)"

record NearbyHospital =
  nh_id :: uuid
  nh_name :: string
  nh_userId :: uuid
  nh_distance :: real
  nh_address :: string
  nh_latitude :: real
  nh_longitude :: real
  nh_maxCapacity :: int
  nh_currentRequests :: nat

text \<open>
  One row of the matcher's query and the object built from it. The \<open>WHERE\<close> clause keeps
  active hospitals with both coordinates; \<open>current_requests\<close> counts the requests bound
  to the hospital with status accepted or assigned.
\<close>

definition nearby_candidate :: "db \<Rightarrow> real \<Rightarrow> real \<Rightarrow> hospital_row \<Rightarrow> NearbyHospital option" where
  "nearby_candidate s latitude longitude h =
     (case (h_latitude h, h_longitude h) of
        (Some hlat, Some hlon) \<Rightarrow>
          if h_is_active h
          then Some \<lparr>nh_id = h_id h, nh_name = h_name h, nh_userId = h_user_id h,
                     nh_distance = calculateDistance latitude longitude hlat hlon,
                     nh_address = h_address h, nh_latitude = hlat, nh_longitude = hlon,
                     nh_maxCapacity = h_emergency_capacity h,
                     nh_currentRequests =
                       length (filter (\<lambda>r. r_hospital_id r = Some (h_id h) \<and>
                                           (r_status r = accepted \<or> r_status r = assigned))
                                      (emergency_requests s))\<rparr>
          else None
      | _ \<Rightarrow> None)"

text \<open>
  \<open>Array.prototype.slice(0, stop)\<close> for an integer \<open>stop\<close>: a negative \<open>stop\<close> counts
  from the end of the array.
\<close>

definition slice0 :: "'a list \<Rightarrow> int \<Rightarrow> 'a list" where
  "slice0 xs stop = (if stop < 0 then take (nat (int (length xs) + stop)) xs
                     else take (nat stop) xs)"

text \<open>
  \<open>EmergencyService.findNearbyHospitals\<close>: map, filter by \<open>maxDistance\<close>, sort by distance
  (\<open>Array.prototype.sort\<close> is stable, as is \<open>sort_key\<close>), cut to \<open>limit\<close>. The
  defaults 50 and 10 of \<open>maxDistance\<close> and \<open>limit\<close> are the caller's to pass; the
  controller passes \<open>limit\<close> as \<open>parseInt(req.query.limit) || 10\<close>, an integer. The
  service's only failure is a failure of the connection to the store.
\<close>

definition findNearbyHospitals :: "db \<Rightarrow> real \<Rightarrow> real \<Rightarrow> real \<Rightarrow> int \<Rightarrow> NearbyHospital list" where
  "findNearbyHospitals s latitude longitude maxDistance limit =
     slice0
       (sort_key nh_distance
          (filter (\<lambda>hospital. nh_distance hospital \<le> maxDistance)
             (List.map_filter (nearby_candidate s latitude longitude) (hospitals s))))
       limit"

record EmergencyRequestData =
  rd_userId :: string
  rd_pickupLatitude :: real
  rd_pickupLongitude :: real
  rd_pickupAddress :: string
  rd_medicalNotes :: "string option"

text \<open>
  \<open>EmergencyService.createEmergencyRequest\<close>: the \<open>INSERT\<close> with status \<open>'pending'\<close>,
  \<open>newId\<close> the generated key. \<open>requestData.userId\<close> is the id of the authenticated
  user, a row of the \<open>users\<close> table, which is left out. The handler turns every
  exception into a 500. After the commit the service looks up nearby hospitals only to
  log them, which leaves the store and the response untouched.
\<close>

definition createEmergencyRequest_body ::
  "timestamp \<Rightarrow> uuid \<Rightarrow> EmergencyRequestData \<Rightarrow> db \<Rightarrow> exn + (uuid \<times> emergency_status) \<times> db" where
  "createEmergencyRequest_body now newId requestData s =
     (case uuid_param (rd_userId requestData) of
        Inl e \<Rightarrow> Inl e
      | Inr uid \<Rightarrow>
         if newId \<in> set (map r_id (emergency_requests s))
         then Inl (PgError ''duplicate key value violates unique constraint'')
         else Inr ((newId, pending),
           s\<lparr>emergency_requests := emergency_requests s @
               [\<lparr>r_id = newId, r_user_id = uid,
                 r_emergency_type = ''Medical Emergency'',
                 r_description = (case rd_medicalNotes requestData of None \<Rightarrow> [] | Some n \<Rightarrow> n),
                 r_pickup_address = rd_pickupAddress requestData,
                 r_pickup_latitude = rd_pickupLatitude requestData,
                 r_pickup_longitude = rd_pickupLongitude requestData,
                 r_status = pending, r_hospital_id = None,
                 r_created_at = now, r_updated_at = now\<rparr>]\<rparr>))"

definition createEmergencyRequest ::
  "timestamp \<Rightarrow> uuid \<Rightarrow> EmergencyRequestData \<Rightarrow> db \<Rightarrow> (ApiError + uuid \<times> emergency_status) \<times> db" where
  "createEmergencyRequest now newId requestData s =
     (case createEmergencyRequest_body now newId requestData s of
        Inl e \<Rightarrow> (Inl (ApiError 500 ''Failed to create emergency request''), s)
      | Inr (res, s') \<Rightarrow> (Inr res, s'))"

subsection \<open>Sequences of operations\<close>

text \<open>
  A call of one of the five mutating operations of the core, with the time and the key
  drawn for it. \<open>apply_op\<close> is the store a call leaves behind, whether it succeeded or
  failed; \<open>run\<close> performs calls one after another.
\<close>

datatype operation =
    CreateRequest timestamp uuid EmergencyRequestData
  | AcceptRequest timestamp string string
  | AssignDriver timestamp uuid string string string
  | AdvanceAssignment timestamp string string string
  | SetAvailability timestamp string bool

fun apply_op :: "operation \<Rightarrow> db \<Rightarrow> db" where
  "apply_op (CreateRequest now newId requestData) s =
     snd (createEmergencyRequest now newId requestData s)"
| "apply_op (AcceptRequest now requestId hospitalId) s =
     snd (acceptEmergencyRequest now requestId hospitalId s)"
| "apply_op (AssignDriver now newId requestId hospitalId driverId) s =
     snd (assignDriverToEmergency now newId requestId hospitalId driverId s)"
| "apply_op (AdvanceAssignment now assignmentId driverId status) s =
     snd (updateAssignmentStatus now assignmentId driverId status s)"
| "apply_op (SetAvailability now driverId isAvailable) s =
     snd (updateAvailabilityStatus now driverId isAvailable s)"

definition run :: "operation list \<Rightarrow> db \<Rightarrow> db" where
  "run ops s = fold apply_op ops s"

subsection \<open>Concurrent acceptance\<close>

text \<open>
  Several hospitals accept at the same time, each call in a transaction of its own on a
  connection of its own. \<open>acceptEmergencyRequest\<close> sets no isolation level, so each
  statement reads what is committed when it runs; its \<open>SELECT\<close>s take no lock
  (no \<open>FOR UPDATE\<close>), and its \<open>UPDATE\<close> selects the row by \<open>id\<close> alone, so it rewrites
  the row whatever status the row has by then. A schedule orders two kinds of steps:
  \<open>Rd i\<close>, call \<open>i\<close> runs its \<open>SELECT\<close>s and checks, and \<open>Wr i\<close>, call \<open>i\<close> runs its
  \<open>UPDATE\<close> and commits. A call whose checks fail rolls back and answers with the error.
\<close>

record accept_call =
  c_now :: timestamp
  c_requestId :: string
  c_hospitalId :: string

datatype progress = Started | Checked uuid uuid | Answered "ApiError + string"

datatype event = Rd nat | Wr nat

definition race_step :: "accept_call list \<Rightarrow> event \<Rightarrow> progress list \<times> db \<Rightarrow> progress list \<times> db" where
  "race_step calls ev st =
     (case st of (ps, s) \<Rightarrow>
       (case ev of
          Rd i \<Rightarrow>
            if i < length calls \<and> i < length ps \<and> ps ! i = Started
            then (case acceptEmergencyRequest_guards
                         (c_requestId (calls ! i)) (c_hospitalId (calls ! i)) s of
                    Inl e \<Rightarrow>
                      (ps[i := Answered (Inl (rethrow ''Failed to accept emergency request'' e))],
                       s)
                  | Inr (rid, hid) \<Rightarrow> (ps[i := Checked rid hid], s))
            else (ps, s)
        | Wr i \<Rightarrow>
            if i < length calls \<and> i < length ps
            then (case ps ! i of
                    Checked rid hid \<Rightarrow>
                      (ps[i := Answered (Inr (c_requestId (calls ! i)))],
                       acceptEmergencyRequest_update (c_now (calls ! i)) rid hid s)
                  | _ \<Rightarrow> (ps, s))
            else (ps, s)))"

definition race :: "accept_call list \<Rightarrow> event list \<Rightarrow> db \<Rightarrow> progress list \<times> db" where
  "race calls schedule s =
     fold (race_step calls) schedule (replicate (length calls) Started, s)"

subsection \<open>Vocabulary of the specification\<close>

text \<open>
  The specification names error kinds where the services raise status codes: NotFound is
  the 404 and Conflict the 400 of an \<open>ApiError\<close>. The 500 that a handler makes of an
  error of the store has no name in the specification; it is called \<open>InternalError\<close> here.
\<close>

definition NotFound :: "ApiError \<Rightarrow> bool" where
  "NotFound e \<longleftrightarrow> statusCode e = 404"

definition Conflict :: "ApiError \<Rightarrow> bool" where
  "Conflict e \<longleftrightarrow> statusCode e = 400"

definition InternalError :: "ApiError \<Rightarrow> bool" where
  "InternalError e \<longleftrightarrow> statusCode e = 500"

text \<open>The number of non-terminal assignments of a driver.\<close>

definition active_count :: "db \<Rightarrow> uuid \<Rightarrow> nat" where
  "active_count s driver =
     length (filter (\<lambda>a. a_driver_id a = driver \<and> active_status (a_status a))
                    (emergency_assignments s))"

text \<open>
  Primary keys are unique, an available driver has no non-terminal assignment and an
  unavailable driver has exactly one.
\<close>

definition availability_inv :: "db \<Rightarrow> bool" where
  "availability_inv s \<longleftrightarrow>
     distinct (map d_id (drivers s)) \<and>
     distinct (map a_id (emergency_assignments s)) \<and>
     (\<forall>d \<in> set (drivers s).
        active_count s (d_id d) = (if d_is_available d then 0 else 1))"

fun is_set_availability :: "operation \<Rightarrow> bool" where
  "is_set_availability (SetAvailability _ _ _) = True"
| "is_set_availability _ = False"

text \<open>
  The request status each operation of the core writes, in the specification's words:
  creation Pending, acceptance Accepted, assignment Assigned, the completion of an
  assignment Completed; the availability toggle writes none.
\<close>

fun status_written_by :: "operation \<Rightarrow> emergency_status option" where
  "status_written_by (CreateRequest _ _ _) = Some pending"
| "status_written_by (AcceptRequest _ _ _) = Some accepted"
| "status_written_by (AssignDriver _ _ _ _ _) = Some assigned"
| "status_written_by (AdvanceAssignment _ _ _ _) = Some completed"
| "status_written_by (SetAvailability _ _ _) = None"

definition no_in_progress :: "db \<Rightarrow> bool" where
  "no_in_progress s \<longleftrightarrow> (\<forall>r \<in> set (emergency_requests s). r_status r \<noteq> in_progress)"

subsection \<open>Sample rows\<close>

text \<open>
  The ids of the samples as text: a patient, the users \<open>u1\<close> and \<open>u3\<close> of the hospitals
  \<open>h1\<close> and \<open>h2\<close>, the user \<open>u2\<close> of the driver \<open>d1\<close>, the requests \<open>r1\<close> and \<open>r2\<close>,
  the assignment \<open>a1\<close>, and an id \<open>r9\<close> that no row has. Their uuids are the numbers
  1 to 10 and 15.
\<close>

definition id_patient :: string where "id_patient = ''00000000-0000-0000-0000-000000000001''"
definition id_u1 :: string where "id_u1 = ''00000000-0000-0000-0000-000000000002''"
definition id_u2 :: string where "id_u2 = ''00000000-0000-0000-0000-000000000003''"
definition id_u3 :: string where "id_u3 = ''00000000-0000-0000-0000-000000000004''"
definition id_h1 :: string where "id_h1 = ''00000000-0000-0000-0000-000000000005''"
definition id_h2 :: string where "id_h2 = ''00000000-0000-0000-0000-000000000006''"
definition id_d1 :: string where "id_d1 = ''00000000-0000-0000-0000-000000000007''"
definition id_r1 :: string where "id_r1 = ''00000000-0000-0000-0000-000000000008''"
definition id_r2 :: string where "id_r2 = ''00000000-0000-0000-0000-000000000009''"
definition id_a1 :: string where "id_a1 = ''00000000-0000-0000-0000-00000000000a''"
definition id_r9 :: string where "id_r9 = ''00000000-0000-0000-0000-00000000000f''"

definition sample_hospital :: "uuid \<Rightarrow> uuid \<Rightarrow> hospital_row" where
  "sample_hospital i u =
     \<lparr>h_id = i, h_user_id = u, h_name = ''General'', h_address = ''1 Main Street'',
      h_latitude = Some 0, h_longitude = Some 0, h_emergency_capacity = 5,
      h_is_active = True\<rparr>"

definition sample_driver :: "uuid \<Rightarrow> uuid \<Rightarrow> bool \<Rightarrow> bool \<Rightarrow> driver_row" where
  "sample_driver i u available approved =
     \<lparr>d_id = i, d_user_id = u, d_is_available = available, d_is_approved = approved,
      d_is_active = True, d_updated_at = 0\<rparr>"

definition sample_request :: "uuid \<Rightarrow> emergency_status \<Rightarrow> uuid option \<Rightarrow> request_row" where
  "sample_request i st h =
     \<lparr>r_id = i, r_user_id = 1, r_emergency_type = ''Medical Emergency'',
      r_description = [],
      r_pickup_address = ''2 Side Street'', r_pickup_latitude = 0, r_pickup_longitude = 0,
      r_status = st, r_hospital_id = h, r_created_at = 0, r_updated_at = 0\<rparr>"

definition sample_assignment :: "uuid \<Rightarrow> uuid \<Rightarrow> uuid \<Rightarrow> assignment_row" where
  "sample_assignment i r d =
     \<lparr>a_id = i, a_emergency_id = r, a_driver_id = d, a_assigned_at = Some 1,
      a_accepted_at = None, a_pickup_at = None, a_completed_at = None,
      a_status = assigned, a_notes = None\<rparr>"

definition sample_data :: EmergencyRequestData where
  "sample_data =
     \<lparr>rd_userId = id_patient, rd_pickupLatitude = 0, rd_pickupLongitude = 0,
      rd_pickupAddress = ''2 Side Street'', rd_medicalNotes = None\<rparr>"

text \<open>
  An accepted request \<open>r1\<close> bound to hospital \<open>h1\<close> (user \<open>u1\<close>) and one driver \<open>d1\<close>
  (user \<open>u2\<close>), with no assignment yet.
\<close>

definition dispatch_store :: "bool \<Rightarrow> bool \<Rightarrow> db" where
  "dispatch_store available approved =
     \<lparr>hospitals = [sample_hospital 5 2],
      drivers = [sample_driver 7 3 available approved],
      emergency_requests = [sample_request 8 accepted (Some 5)],
      emergency_assignments = []\<rparr>"

text \<open>
  Driver \<open>d1\<close> (user \<open>u2\<close>) on assignment \<open>a1\<close> for request \<open>r1\<close>, as
  \<open>assignDriverToEmergency\<close> leaves them.
\<close>

definition on_duty_store :: db where
  "on_duty_store =
     \<lparr>hospitals = [sample_hospital 5 2],
      drivers = [sample_driver 7 3 False True],
      emergency_requests = [sample_request 8 assigned (Some 5)],
      emergency_assignments = [sample_assignment 10 8 7]\<rparr>"

text \<open>A pending request and no hospital registered.\<close>

definition pending_store :: db where
  "pending_store =
     \<lparr>hospitals = [], drivers = [],
      emergency_requests = [sample_request 8 pending None],
      emergency_assignments = []\<rparr>"

text \<open>Two active hospitals at the pickup point.\<close>

definition two_hospitals_store :: db where
  "two_hospitals_store =
     \<lparr>hospitals = [sample_hospital 5 2, sample_hospital 6 4],
      drivers = [], emergency_requests = [], emergency_assignments = []\<rparr>"

text \<open>
  A pending request \<open>r1\<close> and the two hospitals, and the calls with which the users of
  both accept it.
\<close>

definition contested_store :: db where
  "contested_store =
     \<lparr>hospitals = [sample_hospital 5 2, sample_hospital 6 4],
      drivers = [], emergency_requests = [sample_request 8 pending None],
      emergency_assignments = []\<rparr>"

definition both_accept :: "accept_call list" where
  "both_accept =
     [\<lparr>c_now = 2, c_requestId = id_r1, c_hospitalId = id_u1\<rparr>,
      \<lparr>c_now = 3, c_requestId = id_r1, c_hospitalId = id_u3\<rparr>]"

text \<open>
  Hospital \<open>h1\<close> and an approved, available driver \<open>d1\<close>, before any request; and a
  request's journey on that store: created, accepted, assigned to \<open>d1\<close>, then the driver's
  three calls for en route, arrived and completed.
\<close>

definition idle_store :: db where
  "idle_store =
     \<lparr>hospitals = [sample_hospital 5 2],
      drivers = [sample_driver 7 3 True True],
      emergency_requests = [], emergency_assignments = []\<rparr>"

definition journey :: "operation list" where
  "journey =
     [CreateRequest 1 8 sample_data,
      AcceptRequest 2 id_r1 id_u1,
      AssignDriver 3 10 id_r1 id_u1 id_d1,
      AdvanceAssignment 4 id_a1 id_u2 ''en_route'',
      AdvanceAssignment 5 id_a1 id_u2 ''arrived'',
      AdvanceAssignment 6 id_a1 id_u2 ''completed'']"

text \<open>
  Two requests accepted by hospital \<open>h1\<close>; driver \<open>d1\<close> is assigned to the first,
  switches back to available, and is assigned to the second.
\<close>

definition double_booking :: "operation list" where
  "double_booking =
     [CreateRequest 1 8 sample_data,
      CreateRequest 2 9 sample_data,
      AcceptRequest 3 id_r1 id_u1,
      AcceptRequest 4 id_r2 id_u1,
      AssignDriver 5 10 id_r1 id_u1 id_d1,
      SetAvailability 6 id_u2 True,
      AssignDriver 7 11 id_r2 id_u1 id_d1]"


section \<open>Verification\<close>

subsection \<open>Keys\<close>

lemma uuid_in_unfold:
  "uuid_in source =
     (if take 1 source = ''{''
      then (case uuid_groups (Suc (Suc (Suc (Suc (Suc (Suc (Suc (Suc 0)))))))) 0
                   (drop 1 source) of
              Some (u, rest) \<Rightarrow> if rest = ''}'' then Some u else None
            | None \<Rightarrow> None)
      else (case uuid_groups (Suc (Suc (Suc (Suc (Suc (Suc (Suc (Suc 0)))))))) 0 source of
              Some (u, rest) \<Rightarrow> if rest = [] then Some u else None
            | None \<Rightarrow> None))"
proof -
  have "(8::nat) = Suc (Suc (Suc (Suc (Suc (Suc (Suc (Suc 0)))))))"
    by simp
  then show ?thesis
    by (simp only: uuid_in_def)
qed

text \<open>The sample ids are uuids; text of another form is not, whatever it names.\<close>

lemma uuid_in_samples:
  "uuid_in id_patient = Some 1" "uuid_in id_u1 = Some 2" "uuid_in id_u2 = Some 3"
  "uuid_in id_u3 = Some 4" "uuid_in id_h1 = Some 5" "uuid_in id_h2 = Some 6"
  "uuid_in id_d1 = Some 7" "uuid_in id_r1 = Some 8" "uuid_in id_r2 = Some 9"
  "uuid_in id_a1 = Some 10" "uuid_in id_r9 = Some 15"
  by (simp_all add: uuid_in_unfold hex_digits_def
        id_patient_def id_u1_def id_u2_def id_u3_def id_h1_def id_h2_def id_d1_def
        id_r1_def id_r2_def id_a1_def id_r9_def)

lemma uuid_in_malformed: "uuid_in ''not-a-uuid'' = None"
  by (simp add: uuid_in_unfold hex_digits_def)

text \<open>The other forms the store accepts denote the same uuid as the plain one.\<close>

lemma uuid_in_forms:
  "uuid_in ''A0EEBC99-9C0B-4EF8-BB6D-6BB9BD380A11'' =
     Some 213916071241125512485712096724000442897"
  "uuid_in ''{a0eebc99-9c0b-4ef8-bb6d-6bb9bd380a11}'' =
     Some 213916071241125512485712096724000442897"
  "uuid_in ''a0eebc999c0b4ef8bb6d6bb9bd380a11'' =
     Some 213916071241125512485712096724000442897"
  by (simp_all add: uuid_in_unfold hex_digits_def)

lemma uuid_param_simps [simp]:
  "uuid_in source = None \<Longrightarrow>
     uuid_param source = Inl (PgError ''invalid input syntax for type uuid'')"
  "uuid_in source = Some u \<Longrightarrow> uuid_param source = Inr u"
  by (simp_all add: uuid_param_def)

subsection \<open>Transactions and updates\<close>

lemmas sample_defs =
  sample_request_def sample_hospital_def sample_driver_def sample_assignment_def
  sample_data_def

lemma transaction_rollback: "transaction msg body s = (Inl e, s') \<Longrightarrow> s' = s"
  by (auto simp: transaction_def split: sum.splits)

lemma transaction_commit: "transaction msg body s = (Inr x, s') \<longleftrightarrow> body s = Inr (x, s')"
  by (auto simp: transaction_def split: sum.splits)

lemma update_requests_frame [simp]:
  "hospitals (update_requests x f s) = hospitals s"
  "drivers (update_requests x f s) = drivers s"
  "emergency_assignments (update_requests x f s) = emergency_assignments s"
  by (simp_all add: update_requests_def)

lemma update_requests_ids:
  "(\<And>r. r_id (f r) = r_id r) \<Longrightarrow>
   map r_id (emergency_requests (update_requests x f s)) = map r_id (emergency_requests s)"
  by (simp add: update_requests_def)

lemma update_requests_hit:
  "r \<in> set (emergency_requests (update_requests x f s)) \<Longrightarrow> r_id r = x \<Longrightarrow>
   (\<And>r. r_id (f r) = r_id r) \<Longrightarrow> \<exists>r0 \<in> set (emergency_requests s). r = f r0"
  by (auto simp: update_requests_def split: if_splits)

lemma update_requests_miss:
  "r \<in> set (emergency_requests s) \<Longrightarrow> r_id r \<noteq> x \<Longrightarrow>
   r \<in> set (emergency_requests (update_requests x f s))"
  by (force simp: update_requests_def)

lemma update_requests_cases:
  "r \<in> set (emergency_requests (update_requests x f s)) \<Longrightarrow>
   r \<in> set (emergency_requests s) \<or> (\<exists>r0 \<in> set (emergency_requests s). r = f r0)"
  by (auto simp: update_requests_def split: if_splits)

lemma update_drivers_frame [simp]:
  "hospitals (update_drivers x f s) = hospitals s"
  "emergency_requests (update_drivers x f s) = emergency_requests s"
  "emergency_assignments (update_drivers x f s) = emergency_assignments s"
  by (simp_all add: update_drivers_def)

lemma update_drivers_ids:
  "(\<And>d. d_id (f d) = d_id d) \<Longrightarrow>
   map d_id (drivers (update_drivers x f s)) = map d_id (drivers s)"
  by (simp add: update_drivers_def)

lemma update_drivers_hit:
  "d \<in> set (drivers (update_drivers x f s)) \<Longrightarrow> d_id d = x \<Longrightarrow>
   (\<And>d. d_id (f d) = d_id d) \<Longrightarrow> \<exists>d0 \<in> set (drivers s). d = f d0"
  by (auto simp: update_drivers_def split: if_splits)

lemma filter_head: "filter P xs = y # ys \<Longrightarrow> y \<in> set xs \<and> P y"
proof -
  assume "filter P xs = y # ys"
  then have "y \<in> set (filter P xs)" by simp
  then show ?thesis by simp
qed

subsection \<open>Request acceptance\<close>

lemmas accept_defs =
  acceptEmergencyRequest_def acceptEmergencyRequest_body_def
  acceptEmergencyRequest_guards_def transaction_def rethrow_def

lemma accept_bad_request_id:
  "uuid_in requestId = None \<Longrightarrow>
   acceptEmergencyRequest now requestId hospitalId s =
     (Inl (ApiError 500 ''Failed to accept emergency request''), s)"
  by (simp add: accept_defs)

lemma accept_no_request:
  "uuid_in requestId = Some rid \<Longrightarrow>
   filter (\<lambda>r. r_id r = rid) (emergency_requests s) = [] \<Longrightarrow>
   acceptEmergencyRequest now requestId hospitalId s =
     (Inl (ApiError 404 ''Emergency request not found''), s)"
  by (simp add: accept_defs)

lemma accept_not_pending:
  "uuid_in requestId = Some rid \<Longrightarrow>
   filter (\<lambda>r. r_id r = rid) (emergency_requests s) = request # rest \<Longrightarrow>
   r_status request \<noteq> pending \<Longrightarrow>
   acceptEmergencyRequest now requestId hospitalId s =
     (Inl (ApiError 400 ''Emergency request is no longer pending''), s)"
  by (simp add: accept_defs)

lemma accept_bad_hospital_id:
  "uuid_in requestId = Some rid \<Longrightarrow>
   filter (\<lambda>r. r_id r = rid) (emergency_requests s) = request # rest \<Longrightarrow>
   r_status request = pending \<Longrightarrow>
   uuid_in hospitalId = None \<Longrightarrow>
   acceptEmergencyRequest now requestId hospitalId s =
     (Inl (ApiError 500 ''Failed to accept emergency request''), s)"
  by (simp add: accept_defs)

lemma accept_no_hospital:
  "uuid_in requestId = Some rid \<Longrightarrow>
   filter (\<lambda>r. r_id r = rid) (emergency_requests s) = request # rest \<Longrightarrow>
   r_status request = pending \<Longrightarrow>
   uuid_in hospitalId = Some uid \<Longrightarrow>
   filter (\<lambda>h. h_user_id h = uid) (hospitals s) = [] \<Longrightarrow>
   acceptEmergencyRequest now requestId hospitalId s =
     (Inl (ApiError 404 ''Hospital not found''), s)"
  by (simp add: accept_defs)

lemma accept_success:
  "uuid_in requestId = Some rid \<Longrightarrow>
   filter (\<lambda>r. r_id r = rid) (emergency_requests s) = request # rest \<Longrightarrow>
   r_status request = pending \<Longrightarrow>
   uuid_in hospitalId = Some uid \<Longrightarrow>
   filter (\<lambda>h. h_user_id h = uid) (hospitals s) = hospital # hs \<Longrightarrow>
   acceptEmergencyRequest now requestId hospitalId s =
     (Inr requestId, acceptEmergencyRequest_update now rid (h_id hospital) s)"
  by (simp add: accept_defs)

lemma accept_commit:
  assumes "acceptEmergencyRequest now requestId hospitalId s = (Inr x, s')"
  shows "\<exists>rid hid. s' = acceptEmergencyRequest_update now rid hid s"
  using assms
  unfolding acceptEmergencyRequest_def acceptEmergencyRequest_body_def transaction_commit
  by (auto split: sum.splits)

lemma accept_update_frame [simp]:
  "hospitals (acceptEmergencyRequest_update now rid hid s) = hospitals s"
  "drivers (acceptEmergencyRequest_update now rid hid s) = drivers s"
  "emergency_assignments (acceptEmergencyRequest_update now rid hid s) =
     emergency_assignments s"
  by (simp_all add: acceptEmergencyRequest_update_def)

text \<open>
  Claim C4, as amended. \<open>acceptRequest\<close> fails with the 500 of the handler when the text
  passed as request id is not a uuid, with NotFound when it is one and no request has it,
  and with Conflict when the request is not Pending. For a Pending request it fails with
  the 500 when the caller's user id is not a uuid and with NotFound when no hospital is
  registered for the caller; otherwise it succeeds and sets, in one committed
  transaction, the status of the request to Accepted and its hospital to the caller's
  hospital, leaving every other row and table as it was. Every failure leaves the store
  unchanged.
\<close>

theorem acceptRequest_outcomes:
  "(uuid_in requestId = None \<longrightarrow>
      (\<exists>e. acceptEmergencyRequest now requestId hospitalId s = (Inl e, s) \<and>
           InternalError e)) \<and>
   (\<forall>rid. uuid_in requestId = Some rid \<longrightarrow>
      (filter (\<lambda>r. r_id r = rid) (emergency_requests s) = [] \<longrightarrow>
         (\<exists>e. acceptEmergencyRequest now requestId hospitalId s = (Inl e, s) \<and>
              NotFound e)) \<and>
      (\<forall>request rest.
         filter (\<lambda>r. r_id r = rid) (emergency_requests s) = request # rest \<longrightarrow>
         (r_status request \<noteq> pending \<longrightarrow>
            (\<exists>e. acceptEmergencyRequest now requestId hospitalId s = (Inl e, s) \<and>
                 Conflict e)) \<and>
         (r_status request = pending \<and> uuid_in hospitalId = None \<longrightarrow>
            (\<exists>e. acceptEmergencyRequest now requestId hospitalId s = (Inl e, s) \<and>
                 InternalError e)) \<and>
         (\<forall>uid. r_status request = pending \<and> uuid_in hospitalId = Some uid \<longrightarrow>
            (filter (\<lambda>h. h_user_id h = uid) (hospitals s) = [] \<longrightarrow>
               (\<exists>e. acceptEmergencyRequest now requestId hospitalId s = (Inl e, s) \<and>
                    NotFound e)) \<and>
            (\<forall>hospital hs.
               filter (\<lambda>h. h_user_id h = uid) (hospitals s) = hospital # hs \<longrightarrow>
               (\<exists>s'. acceptEmergencyRequest now requestId hospitalId s =
                       (Inr requestId, s') \<and>
                  hospitals s' = hospitals s \<and> drivers s' = drivers s \<and>
                  emergency_assignments s' = emergency_assignments s \<and>
                  map r_id (emergency_requests s') = map r_id (emergency_requests s) \<and>
                  (\<forall>r \<in> set (emergency_requests s'). r_id r = rid \<longrightarrow>
                     r_status r = accepted \<and> r_hospital_id r = Some (h_id hospital)) \<and>
                  (\<forall>r \<in> set (emergency_requests s). r_id r \<noteq> rid \<longrightarrow>
                     r \<in> set (emergency_requests s')))))))"
proof (intro conjI allI impI, goal_cases)
  case 1
  then show ?case
    by (simp add: accept_bad_request_id InternalError_def)
next
  case (2 rid)
  then show ?case
    by (simp add: accept_no_request NotFound_def)
next
  case (3 rid request rest)
  then show ?case
    by (simp add: accept_not_pending Conflict_def)
next
  case (4 rid request rest)
  then show ?case
    by (simp add: accept_bad_hospital_id InternalError_def)
next
  case (5 rid request rest uid)
  then show ?case
    by (simp add: accept_no_hospital NotFound_def)
next
  case (6 rid request rest uid hospital hs)
  let ?s' = "acceptEmergencyRequest_update now rid (h_id hospital) s"
  from 6 have run: "acceptEmergencyRequest now requestId hospitalId s = (Inr requestId, ?s')"
    by (simp add: accept_success)
  have ids: "map r_id (emergency_requests ?s') = map r_id (emergency_requests s)"
    by (simp add: acceptEmergencyRequest_update_def update_requests_ids)
  have hit: "\<forall>r \<in> set (emergency_requests ?s'). r_id r = rid \<longrightarrow>
               r_status r = accepted \<and> r_hospital_id r = Some (h_id hospital)"
    unfolding acceptEmergencyRequest_update_def by (auto dest!: update_requests_hit)
  have miss: "\<forall>r \<in> set (emergency_requests s). r_id r \<noteq> rid \<longrightarrow>
               r \<in> set (emergency_requests ?s')"
    by (simp add: acceptEmergencyRequest_update_def update_requests_miss)
  show ?case
    using run ids hit miss by (intro exI [of _ ?s']) simp
qed

theorem acceptRequest_outcomes_witness:
  "(\<exists>e. acceptEmergencyRequest 3 ''not-a-uuid'' id_u1 pending_store = (Inl e, pending_store) \<and>
        InternalError e) \<and>
   (\<exists>e. acceptEmergencyRequest 3 id_r9 id_u1 pending_store = (Inl e, pending_store) \<and>
        NotFound e) \<and>
   (\<exists>e. acceptEmergencyRequest 3 id_r1 id_u1 (dispatch_store True True) =
          (Inl e, dispatch_store True True) \<and> Conflict e) \<and>
   (\<exists>e. acceptEmergencyRequest 3 id_r1 ''hospital'' pending_store = (Inl e, pending_store) \<and>
        InternalError e) \<and>
   (\<exists>e. acceptEmergencyRequest 3 id_r1 id_u1 pending_store = (Inl e, pending_store) \<and>
        NotFound e) \<and>
   (\<exists>s'. acceptEmergencyRequest 3 id_r1 id_u1
            (pending_store\<lparr>hospitals := [sample_hospital 5 2]\<rparr>) = (Inr id_r1, s') \<and>
         map r_status (emergency_requests s') = [accepted] \<and>
         map r_hospital_id (emergency_requests s') = [Some 5])"
proof -
  have bad: "uuid_in ''hospital'' = None"
    by (simp add: uuid_in_unfold hex_digits_def)
  have none: "filter (\<lambda>r. r_id r = 15) (emergency_requests pending_store) = []"
    and one: "filter (\<lambda>r. r_id r = 8) (emergency_requests pending_store) =
                [sample_request 8 pending None]"
    and taken: "filter (\<lambda>r. r_id r = 8) (emergency_requests (dispatch_store True True)) =
                [sample_request 8 accepted (Some 5)]"
    and nobody: "filter (\<lambda>h. h_user_id h = 2) (hospitals pending_store) = []"
    by (simp_all add: pending_store_def dispatch_store_def sample_defs)
  have st: "r_status (sample_request 8 pending None) = pending"
    "r_status (sample_request 8 accepted (Some 5)) \<noteq> pending"
    by (simp_all add: sample_defs)
  have c1: "\<exists>e. acceptEmergencyRequest 3 ''not-a-uuid'' id_u1 pending_store =
              (Inl e, pending_store) \<and> InternalError e"
    using acceptRequest_outcomes [of "''not-a-uuid''" 3 id_u1 pending_store]
    by (simp add: uuid_in_malformed)
  have c2: "\<exists>e. acceptEmergencyRequest 3 id_r9 id_u1 pending_store =
              (Inl e, pending_store) \<and> NotFound e"
    using acceptRequest_outcomes [of id_r9 3 id_u1 pending_store] none
    by (simp add: uuid_in_samples)
  have c3: "\<exists>e. acceptEmergencyRequest 3 id_r1 id_u1 (dispatch_store True True) =
              (Inl e, dispatch_store True True) \<and> Conflict e"
    using acceptRequest_outcomes [of id_r1 3 id_u1 "dispatch_store True True"] taken st
    by (simp add: uuid_in_samples)
  have c4: "\<exists>e. acceptEmergencyRequest 3 id_r1 ''hospital'' pending_store =
              (Inl e, pending_store) \<and> InternalError e"
    using acceptRequest_outcomes [of id_r1 3 "''hospital''" pending_store] one st bad
    by (simp add: uuid_in_samples)
  have c5: "\<exists>e. acceptEmergencyRequest 3 id_r1 id_u1 pending_store =
              (Inl e, pending_store) \<and> NotFound e"
    using acceptRequest_outcomes [of id_r1 3 id_u1 pending_store] one st nobody
    by (simp add: uuid_in_samples)
  have c6: "\<exists>s'. acceptEmergencyRequest 3 id_r1 id_u1
            (pending_store\<lparr>hospitals := [sample_hospital 5 2]\<rparr>) = (Inr id_r1, s') \<and>
         map r_status (emergency_requests s') = [accepted] \<and>
         map r_hospital_id (emergency_requests s') = [Some 5]"
  proof -
    let ?p = "pending_store\<lparr>hospitals := [sample_hospital 5 2]\<rparr>"
    have rows: "filter (\<lambda>r. r_id r = 8) (emergency_requests ?p) =
                  [sample_request 8 pending None]"
      "filter (\<lambda>h. h_user_id h = 2) (hospitals ?p) = [sample_hospital 5 2]"
      "map r_id (emergency_requests ?p) = [8]" "h_id (sample_hospital 5 2) = 5"
      by (simp_all add: pending_store_def sample_defs)
    from acceptRequest_outcomes [of id_r1 3 id_u1 ?p] rows st
    obtain s' where run: "acceptEmergencyRequest 3 id_r1 id_u1 ?p = (Inr id_r1, s')"
      and ids: "map r_id (emergency_requests s') = [8]"
      and hit: "\<forall>r \<in> set (emergency_requests s'). r_id r = 8 \<longrightarrow>
                  r_status r = accepted \<and> r_hospital_id r = Some 5"
      by (auto simp: uuid_in_samples)
    from ids obtain r where "emergency_requests s' = [r]" and "r_id r = 8"
      by auto
    with hit have "map r_status (emergency_requests s') = [accepted]"
      and "map r_hospital_id (emergency_requests s') = [Some 5]"
      by simp_all
    with run show ?thesis
      by (intro exI [of _ s']) simp
  qed
  from c1 c2 c3 c4 c5 c6 show ?thesis
    by blast
qed

text \<open>
  Claim C4 as stated fails, in two ways. The request id arrives as the text of the URL:
  when it is not a uuid the store raises and the call ends in the 500 of the handler,
  which is neither NotFound nor Conflict, although no request has that id. And when a
  Pending request exists and its id is passed, the call still ends in NotFound if the
  calling user has no hospital row.
\<close>

theorem acceptRequest_counterexample:
  "uuid_in ''not-a-uuid'' = None \<and>
   map h_user_id (hospitals contested_store) = [2, 4] \<and> uuid_in id_u1 = Some 2 \<and>
   acceptEmergencyRequest 3 ''not-a-uuid'' id_u1 contested_store =
     (Inl (ApiError 500 ''Failed to accept emergency request''), contested_store) \<and>
   \<not> NotFound (ApiError 500 ''Failed to accept emergency request'') \<and>
   \<not> Conflict (ApiError 500 ''Failed to accept emergency request'') \<and>
   uuid_in id_r1 = Some 8 \<and>
   map r_id (emergency_requests pending_store) = [8] \<and>
   map r_status (emergency_requests pending_store) = [pending] \<and>
   acceptEmergencyRequest 3 id_r1 id_u1 pending_store =
     (Inl (ApiError 404 ''Hospital not found''), pending_store)"
  by (simp add: uuid_in_samples uuid_in_malformed pending_store_def contested_store_def
        sample_defs accept_defs NotFound_def Conflict_def)

subsection \<open>Driver assignment\<close>

lemmas assign_defs =
  assignDriverToEmergency_def assignDriverToEmergency_body_def transaction_def rethrow_def

lemma assign_bad_hospital_id:
  "uuid_in hospitalId = None \<Longrightarrow>
   assignDriverToEmergency now newId requestId hospitalId driverId s =
     (Inl (ApiError 500 ''Failed to assign driver to emergency''), s)"
  by (simp add: assign_defs)

lemma assign_no_hospital:
  "uuid_in hospitalId = Some uid \<Longrightarrow>
   filter (\<lambda>h. h_user_id h = uid) (hospitals s) = [] \<Longrightarrow>
   assignDriverToEmergency now newId requestId hospitalId driverId s =
     (Inl (ApiError 404 ''Hospital not found''), s)"
  by (simp add: assign_defs)

lemma assign_bad_request_id:
  "uuid_in hospitalId = Some uid \<Longrightarrow>
   filter (\<lambda>h. h_user_id h = uid) (hospitals s) = hospital # hs \<Longrightarrow>
   uuid_in requestId = None \<Longrightarrow>
   assignDriverToEmergency now newId requestId hospitalId driverId s =
     (Inl (ApiError 500 ''Failed to assign driver to emergency''), s)"
  by (simp add: assign_defs)

lemma assign_no_request:
  "uuid_in hospitalId = Some uid \<Longrightarrow>
   filter (\<lambda>h. h_user_id h = uid) (hospitals s) = hospital # hs \<Longrightarrow>
   uuid_in requestId = Some rid \<Longrightarrow>
   filter (\<lambda>r. r_id r = rid \<and> r_hospital_id r = Some (h_id hospital))
          (emergency_requests s) = [] \<Longrightarrow>
   assignDriverToEmergency now newId requestId hospitalId driverId s =
     (Inl (ApiError 404 ''Emergency request not found or not assigned to this hospital''), s)"
  by (simp add: assign_defs)

lemma assign_not_accepted:
  "uuid_in hospitalId = Some uid \<Longrightarrow>
   filter (\<lambda>h. h_user_id h = uid) (hospitals s) = hospital # hs \<Longrightarrow>
   uuid_in requestId = Some rid \<Longrightarrow>
   filter (\<lambda>r. r_id r = rid \<and> r_hospital_id r = Some (h_id hospital))
          (emergency_requests s) = request # rs \<Longrightarrow>
   r_status request \<noteq> accepted \<Longrightarrow>
   assignDriverToEmergency now newId requestId hospitalId driverId s =
     (Inl (ApiError 400 ''Emergency request must be in accepted status to assign a driver''),
      s)"
  by (simp add: assign_defs)

lemma assign_bad_driver_id:
  "uuid_in hospitalId = Some uid \<Longrightarrow>
   filter (\<lambda>h. h_user_id h = uid) (hospitals s) = hospital # hs \<Longrightarrow>
   uuid_in requestId = Some rid \<Longrightarrow>
   filter (\<lambda>r. r_id r = rid \<and> r_hospital_id r = Some (h_id hospital))
          (emergency_requests s) = request # rs \<Longrightarrow>
   r_status request = accepted \<Longrightarrow>
   uuid_in driverId = None \<Longrightarrow>
   assignDriverToEmergency now newId requestId hospitalId driverId s =
     (Inl (ApiError 500 ''Failed to assign driver to emergency''), s)"
  by (simp add: assign_defs)

lemma assign_no_driver:
  "uuid_in hospitalId = Some uid \<Longrightarrow>
   filter (\<lambda>h. h_user_id h = uid) (hospitals s) = hospital # hs \<Longrightarrow>
   uuid_in requestId = Some rid \<Longrightarrow>
   filter (\<lambda>r. r_id r = rid \<and> r_hospital_id r = Some (h_id hospital))
          (emergency_requests s) = request # rs \<Longrightarrow>
   r_status request = accepted \<Longrightarrow>
   uuid_in driverId = Some did \<Longrightarrow>
   filter (\<lambda>d. d_id d = did \<and> d_is_approved d \<and> d_is_active d) (drivers s) = [] \<Longrightarrow>
   assignDriverToEmergency now newId requestId hospitalId driverId s =
     (Inl (ApiError 404 ''Driver not found or not approved''), s)"
  by (simp add: assign_defs)

lemma assign_unavailable:
  "uuid_in hospitalId = Some uid \<Longrightarrow>
   filter (\<lambda>h. h_user_id h = uid) (hospitals s) = hospital # hs \<Longrightarrow>
   uuid_in requestId = Some rid \<Longrightarrow>
   filter (\<lambda>r. r_id r = rid \<and> r_hospital_id r = Some (h_id hospital))
          (emergency_requests s) = request # rs \<Longrightarrow>
   r_status request = accepted \<Longrightarrow>
   uuid_in driverId = Some did \<Longrightarrow>
   filter (\<lambda>d. d_id d = did \<and> d_is_approved d \<and> d_is_active d) (drivers s)
     = driver # ds \<Longrightarrow>
   \<not> d_is_available driver \<Longrightarrow>
   assignDriverToEmergency now newId requestId hospitalId driverId s =
     (Inl (ApiError 400 ''Driver is currently unavailable''), s)"
  by (simp add: assign_defs)

text \<open>The store a committed assignment leaves behind.\<close>

lemma assign_commit:
  assumes "assignDriverToEmergency now newId requestId hospitalId driverId s = (Inr res, s')"
  shows "\<exists>rid did.
         uuid_in requestId = Some rid \<and> uuid_in driverId = Some did \<and>
         res_assignmentId res = newId \<and>
         newId \<notin> set (map a_id (emergency_assignments s)) \<and>
         (\<exists>r \<in> set (emergency_requests s). r_id r = rid) \<and>
         (\<exists>d \<in> set (drivers s).
            d_id d = did \<and> d_is_approved d \<and> d_is_active d \<and> d_is_available d) \<and>
         s' = update_drivers did (\<lambda>d. d\<lparr>d_is_available := False, d_updated_at := now\<rparr>)
            ((update_requests rid (\<lambda>r. r\<lparr>r_status := assigned, r_updated_at := now\<rparr>) s)
             \<lparr>emergency_assignments := emergency_assignments s @
               [\<lparr>a_id = newId, a_emergency_id = rid, a_driver_id = did,
                 a_assigned_at = Some now, a_accepted_at = None, a_pickup_at = None,
                 a_completed_at = None, a_status = assigned, a_notes = None\<rparr>]\<rparr>)"
proof -
  let ?body = "assignDriverToEmergency_body now newId requestId hospitalId driverId s"
  from assms have body: "?body = Inr (res, s')"
    by (simp add: assignDriverToEmergency_def transaction_commit)
  obtain uid where u: "uuid_in hospitalId = Some uid"
    using body
    by (cases "uuid_in hospitalId") (simp_all add: assignDriverToEmergency_body_def)
  obtain hospital hs where h: "filter (\<lambda>h. h_user_id h = uid) (hospitals s) = hospital # hs"
    using body u
    by (cases "filter (\<lambda>h. h_user_id h = uid) (hospitals s)")
       (simp_all add: assignDriverToEmergency_body_def)
  obtain rid where ri: "uuid_in requestId = Some rid"
    using body u h
    by (cases "uuid_in requestId") (simp_all add: assignDriverToEmergency_body_def)
  obtain request rs where
    r: "filter (\<lambda>r. r_id r = rid \<and> r_hospital_id r = Some (h_id hospital))
          (emergency_requests s) = request # rs"
    using body u h ri
    by (cases "filter (\<lambda>r. r_id r = rid \<and> r_hospital_id r = Some (h_id hospital))
          (emergency_requests s)")
       (simp_all add: assignDriverToEmergency_body_def)
  have acc: "r_status request = accepted"
    using body u h ri r by (simp add: assignDriverToEmergency_body_def split: if_splits)
  obtain did where di: "uuid_in driverId = Some did"
    using body u h ri r acc
    by (cases "uuid_in driverId") (simp_all add: assignDriverToEmergency_body_def)
  obtain driver ds where
    d: "filter (\<lambda>d. d_id d = did \<and> d_is_approved d \<and> d_is_active d) (drivers s)
          = driver # ds"
    using body u h ri r acc di
    by (cases "filter (\<lambda>d. d_id d = did \<and> d_is_approved d \<and> d_is_active d) (drivers s)")
       (simp_all add: assignDriverToEmergency_body_def)
  have av: "d_is_available driver"
    using body u h ri r acc di d
    by (simp add: assignDriverToEmergency_body_def split: if_splits)
  have fresh: "newId \<notin> set (map a_id (emergency_assignments s))"
    using body u h ri r acc di d av
    by (simp add: assignDriverToEmergency_body_def insert_assignment_def Let_def
          update_requests_def split: if_splits)
  have "?body = Inr (\<lparr>res_requestId = requestId, res_assignmentId = newId,
                      res_driverId = d_id driver\<rparr>,
     update_drivers did (\<lambda>d. d\<lparr>d_is_available := False, d_updated_at := now\<rparr>)
            ((update_requests rid (\<lambda>r. r\<lparr>r_status := assigned, r_updated_at := now\<rparr>) s)
             \<lparr>emergency_assignments := emergency_assignments s @
               [\<lparr>a_id = newId, a_emergency_id = rid, a_driver_id = did,
                 a_assigned_at = Some now, a_accepted_at = None, a_pickup_at = None,
                 a_completed_at = None, a_status = assigned, a_notes = None\<rparr>]\<rparr>))"
    using u h ri r acc di d av fresh
    by (simp add: assignDriverToEmergency_body_def insert_assignment_def Let_def)
  with body have "res_assignmentId res = newId"
    and "s' = update_drivers did (\<lambda>d. d\<lparr>d_is_available := False, d_updated_at := now\<rparr>)
            ((update_requests rid (\<lambda>r. r\<lparr>r_status := assigned, r_updated_at := now\<rparr>) s)
             \<lparr>emergency_assignments := emergency_assignments s @
               [\<lparr>a_id = newId, a_emergency_id = rid, a_driver_id = did,
                 a_assigned_at = Some now, a_accepted_at = None, a_pickup_at = None,
                 a_completed_at = None, a_status = assigned, a_notes = None\<rparr>]\<rparr>)"
    by auto
  moreover have "\<exists>r \<in> set (emergency_requests s). r_id r = rid"
    using filter_head [OF r] by blast
  moreover have "\<exists>d \<in> set (drivers s).
            d_id d = did \<and> d_is_approved d \<and> d_is_active d \<and> d_is_available d"
    using filter_head [OF d] av by blast
  ultimately show ?thesis using fresh ri di by blast
qed

text \<open>
  Claim C5, as amended. \<open>assignDriver\<close> fails with the 500 of the handler when the text
  passed as the caller's user id, as request id or as driver id is not a uuid at the
  point where the store reads it; with NotFound when the caller has no hospital or when
  no request with the given id is bound to the caller's hospital; with Conflict when that
  request is not Accepted; with NotFound when the request is Accepted and no approved,
  active driver has the given id; and with Conflict when that driver is unavailable. In
  each case the store is left unchanged.
\<close>

theorem assignDriver_failures:
  "(uuid_in hospitalId = None \<longrightarrow>
      (\<exists>e. assignDriverToEmergency now newId requestId hospitalId driverId s = (Inl e, s) \<and>
           InternalError e)) \<and>
   (\<forall>uid. uuid_in hospitalId = Some uid \<longrightarrow>
   (filter (\<lambda>h. h_user_id h = uid) (hospitals s) = [] \<longrightarrow>
      (\<exists>e. assignDriverToEmergency now newId requestId hospitalId driverId s = (Inl e, s) \<and>
           NotFound e)) \<and>
   (\<forall>hospital hs. filter (\<lambda>h. h_user_id h = uid) (hospitals s) = hospital # hs \<longrightarrow>
      (uuid_in requestId = None \<longrightarrow>
         (\<exists>e. assignDriverToEmergency now newId requestId hospitalId driverId s = (Inl e, s) \<and>
              InternalError e)) \<and>
      (\<forall>rid. uuid_in requestId = Some rid \<longrightarrow>
      (filter (\<lambda>r. r_id r = rid \<and> r_hospital_id r = Some (h_id hospital))
              (emergency_requests s) = [] \<longrightarrow>
         (\<exists>e. assignDriverToEmergency now newId requestId hospitalId driverId s = (Inl e, s) \<and>
              NotFound e)) \<and>
      (\<forall>request rs.
         filter (\<lambda>r. r_id r = rid \<and> r_hospital_id r = Some (h_id hospital))
                (emergency_requests s) = request # rs \<longrightarrow>
         (r_status request \<noteq> accepted \<longrightarrow>
            (\<exists>e. assignDriverToEmergency now newId requestId hospitalId driverId s = (Inl e, s) \<and>
                 Conflict e)) \<and>
         (r_status request = accepted \<and> uuid_in driverId = None \<longrightarrow>
            (\<exists>e. assignDriverToEmergency now newId requestId hospitalId driverId s = (Inl e, s) \<and>
                 InternalError e)) \<and>
         (\<forall>did. r_status request = accepted \<and> uuid_in driverId = Some did \<longrightarrow>
         (filter (\<lambda>d. d_id d = did \<and> d_is_approved d \<and> d_is_active d) (drivers s) = [] \<longrightarrow>
            (\<exists>e. assignDriverToEmergency now newId requestId hospitalId driverId s = (Inl e, s) \<and>
                 NotFound e)) \<and>
         (\<forall>driver ds.
            filter (\<lambda>d. d_id d = did \<and> d_is_approved d \<and> d_is_active d) (drivers s)
              = driver # ds \<and>
            \<not> d_is_available driver \<longrightarrow>
            (\<exists>e. assignDriverToEmergency now newId requestId hospitalId driverId s = (Inl e, s) \<and>
                 Conflict e)))))))"
proof (intro conjI allI impI, goal_cases)
  case 1
  then show ?case
    by (simp add: assign_bad_hospital_id InternalError_def)
next
  case (2 uid)
  then show ?case
    by (simp add: assign_no_hospital NotFound_def)
next
  case (3 uid hospital hs)
  then show ?case
    by (simp add: assign_bad_request_id InternalError_def)
next
  case (4 uid hospital hs rid)
  then show ?case
    by (simp add: assign_no_request NotFound_def)
next
  case (5 uid hospital hs rid request rs)
  then show ?case
    by (simp add: assign_not_accepted Conflict_def)
next
  case (6 uid hospital hs rid request rs)
  then show ?case
    by (simp add: assign_bad_driver_id InternalError_def)
next
  case (7 uid hospital hs rid request rs did)
  then show ?case
    by (simp add: assign_no_driver NotFound_def)
next
  case (8 uid hospital hs rid request rs did driver ds)
  then show ?case
    by (simp add: assign_unavailable Conflict_def)
qed

theorem assignDriver_failures_witness:
  "(\<exists>e. assignDriverToEmergency 7 10 id_r1 ''hospital'' id_d1 (dispatch_store True True) =
           (Inl e, dispatch_store True True) \<and> InternalError e) \<and>
   (\<exists>e. assignDriverToEmergency 7 10 id_r1 id_u1 id_d1 pending_store =
           (Inl e, pending_store) \<and> NotFound e) \<and>
   (\<exists>e. assignDriverToEmergency 7 10 ''not-a-uuid'' id_u1 id_d1 (dispatch_store True True) =
           (Inl e, dispatch_store True True) \<and> InternalError e) \<and>
   (\<exists>e. assignDriverToEmergency 7 10 id_r9 id_u1 id_d1 (dispatch_store True True) =
           (Inl e, dispatch_store True True) \<and> NotFound e) \<and>
   (\<exists>e. assignDriverToEmergency 7 11 id_r1 id_u1 id_d1 on_duty_store =
           (Inl e, on_duty_store) \<and> Conflict e) \<and>
   (\<exists>e. assignDriverToEmergency 7 10 id_r1 id_u1 ''driver'' (dispatch_store True True) =
           (Inl e, dispatch_store True True) \<and> InternalError e) \<and>
   (\<exists>e. assignDriverToEmergency 7 10 id_r1 id_u1 id_d1 (dispatch_store True False) =
           (Inl e, dispatch_store True False) \<and> NotFound e) \<and>
   (\<exists>e. assignDriverToEmergency 7 10 id_r1 id_u1 id_d1 (dispatch_store False True) =
           (Inl e, dispatch_store False True) \<and> Conflict e)"
proof -
  have bad: "uuid_in ''hospital'' = None" "uuid_in ''driver'' = None"
    by (simp_all add: uuid_in_unfold hex_digits_def)
  have hosp: "filter (\<lambda>h. h_user_id h = 2) (hospitals (dispatch_store a b)) =
                [sample_hospital 5 2]"
             "filter (\<lambda>h. h_user_id h = 2) (hospitals on_duty_store) = [sample_hospital 5 2]"
             "filter (\<lambda>h. h_user_id h = 2) (hospitals pending_store) = []" for a b
    by (simp_all add: dispatch_store_def on_duty_store_def pending_store_def sample_defs)
  have hid: "h_id (sample_hospital 5 2) = 5"
    by (simp add: sample_defs)
  have req: "filter (\<lambda>r. r_id r = 8 \<and> r_hospital_id r = Some 5)
                (emergency_requests (dispatch_store a b)) =
                [sample_request 8 accepted (Some 5)]"
            "filter (\<lambda>r. r_id r = 15 \<and> r_hospital_id r = Some 5)
                (emergency_requests (dispatch_store a b)) = []"
            "filter (\<lambda>r. r_id r = 8 \<and> r_hospital_id r = Some 5)
                (emergency_requests on_duty_store) =
                [sample_request 8 assigned (Some 5)]" for a b
    by (simp_all add: dispatch_store_def on_duty_store_def sample_defs)
  have st: "r_status (sample_request 8 accepted (Some 5)) = accepted"
           "r_status (sample_request 8 assigned (Some 5)) \<noteq> accepted"
    by (simp_all add: sample_defs)
  have drv: "filter (\<lambda>d. d_id d = 7 \<and> d_is_approved d \<and> d_is_active d)
                (drivers (dispatch_store True False)) = []"
            "filter (\<lambda>d. d_id d = 7 \<and> d_is_approved d \<and> d_is_active d)
                (drivers (dispatch_store False True)) = [sample_driver 7 3 False True]"
            "\<not> d_is_available (sample_driver 7 3 False True)"
    by (simp_all add: dispatch_store_def sample_defs)
  have c1: "\<exists>e. assignDriverToEmergency 7 10 id_r1 ''hospital'' id_d1 (dispatch_store True True) =
           (Inl e, dispatch_store True True) \<and> InternalError e"
    using assignDriver_failures [of "''hospital''" 7 10 id_r1 id_d1 "dispatch_store True True"]
    by (simp add: bad)
  have c2: "\<exists>e. assignDriverToEmergency 7 10 id_r1 id_u1 id_d1 pending_store =
           (Inl e, pending_store) \<and> NotFound e"
    using assignDriver_failures [of id_u1 7 10 id_r1 id_d1 pending_store]
    by (simp add: uuid_in_samples hosp)
  have c3: "\<exists>e. assignDriverToEmergency 7 10 ''not-a-uuid'' id_u1 id_d1 (dispatch_store True True) =
           (Inl e, dispatch_store True True) \<and> InternalError e"
    using assignDriver_failures [of id_u1 7 10 "''not-a-uuid''" id_d1 "dispatch_store True True"]
    by (simp add: uuid_in_samples uuid_in_malformed hosp)
  have c4: "\<exists>e. assignDriverToEmergency 7 10 id_r9 id_u1 id_d1 (dispatch_store True True) =
           (Inl e, dispatch_store True True) \<and> NotFound e"
    using assignDriver_failures [of id_u1 7 10 id_r9 id_d1 "dispatch_store True True"]
    by (simp add: uuid_in_samples hosp hid req)
  have c5: "\<exists>e. assignDriverToEmergency 7 11 id_r1 id_u1 id_d1 on_duty_store =
           (Inl e, on_duty_store) \<and> Conflict e"
    using assignDriver_failures [of id_u1 7 11 id_r1 id_d1 on_duty_store]
    by (simp add: uuid_in_samples hosp hid req st)
  have c6: "\<exists>e. assignDriverToEmergency 7 10 id_r1 id_u1 ''driver'' (dispatch_store True True) =
           (Inl e, dispatch_store True True) \<and> InternalError e"
    using assignDriver_failures [of id_u1 7 10 id_r1 "''driver''" "dispatch_store True True"]
    by (simp add: uuid_in_samples hosp hid req st bad)
  have c7: "\<exists>e. assignDriverToEmergency 7 10 id_r1 id_u1 id_d1 (dispatch_store True False) =
           (Inl e, dispatch_store True False) \<and> NotFound e"
    using assignDriver_failures [of id_u1 7 10 id_r1 id_d1 "dispatch_store True False"]
    by (simp add: uuid_in_samples hosp hid req st drv)
  have c8: "\<exists>e. assignDriverToEmergency 7 10 id_r1 id_u1 id_d1 (dispatch_store False True) =
           (Inl e, dispatch_store False True) \<and> Conflict e"
    using assignDriver_failures [of id_u1 7 10 id_r1 id_d1 "dispatch_store False True"]
    by (simp add: uuid_in_samples hosp hid req st drv)
  from c1 c2 c3 c4 c5 c6 c7 c8 show ?thesis
    by blast
qed

text \<open>
  Claim C5 as stated fails, in two ways. For an unapproved driver the call ends in
  NotFound (404), not in Conflict. And the request id arrives as the text of the URL:
  when it is not a uuid the store raises and the call ends in the 500 of the handler, not
  in NotFound, although no request has that id.
\<close>

theorem assignDriver_unapproved_counterexample:
  "map r_status (emergency_requests (dispatch_store True False)) = [accepted] \<and>
   map d_id (drivers (dispatch_store True False)) = [7] \<and>
   uuid_in id_d1 = Some 7 \<and>
   map d_is_approved (drivers (dispatch_store True False)) = [False] \<and>
   assignDriverToEmergency 7 10 id_r1 id_u1 id_d1 (dispatch_store True False) =
     (Inl (ApiError 404 ''Driver not found or not approved''), dispatch_store True False) \<and>
   \<not> Conflict (ApiError 404 ''Driver not found or not approved'') \<and>
   uuid_in ''not-a-uuid'' = None \<and>
   assignDriverToEmergency 7 10 ''not-a-uuid'' id_u1 id_d1 (dispatch_store True True) =
     (Inl (ApiError 500 ''Failed to assign driver to emergency''), dispatch_store True True) \<and>
   \<not> NotFound (ApiError 500 ''Failed to assign driver to emergency'')"
  by (simp add: sample_defs dispatch_store_def Conflict_def NotFound_def assign_defs
        uuid_in_samples uuid_in_malformed)

text \<open>
  Claim C1. A call of \<open>assignDriver\<close> that fails, for whatever reason, leaves the store
  exactly as it was. A call that succeeds returns the id of an assignment that did not
  exist before and leaves a store in which that assignment exists for the request and
  the driver whose ids were passed, with status Assigned and \<open>assigned_at\<close> the current
  time, in which the request exists with status Assigned, and in which the driver exists
  and is not available. The store after the call is therefore either the old one or one
  with all three changes.
\<close>

theorem assignDriver_atomic:
  "(\<forall>e s'. assignDriverToEmergency now newId requestId hospitalId driverId s = (Inl e, s') \<longrightarrow>
      s' = s) \<and>
   (\<forall>res s'. assignDriverToEmergency now newId requestId hospitalId driverId s = (Inr res, s') \<longrightarrow>
      res_assignmentId res \<notin> set (map a_id (emergency_assignments s)) \<and>
      (\<exists>a \<in> set (emergency_assignments s').
         a_id a = res_assignmentId res \<and> uuid_in requestId = Some (a_emergency_id a) \<and>
         uuid_in driverId = Some (a_driver_id a) \<and> a_status a = assigned \<and>
         a_assigned_at a = Some now) \<and>
      (\<exists>r \<in> set (emergency_requests s'). uuid_in requestId = Some (r_id r)) \<and>
      (\<forall>r \<in> set (emergency_requests s').
         uuid_in requestId = Some (r_id r) \<longrightarrow> r_status r = assigned) \<and>
      (\<exists>d \<in> set (drivers s'). uuid_in driverId = Some (d_id d)) \<and>
      (\<forall>d \<in> set (drivers s').
         uuid_in driverId = Some (d_id d) \<longrightarrow> \<not> d_is_available d))"
proof (intro conjI allI impI)
  fix e s'
  assume "assignDriverToEmergency now newId requestId hospitalId driverId s = (Inl e, s')"
  then show "s' = s"
    unfolding assignDriverToEmergency_def by (rule transaction_rollback)
next
  fix res s'
  assume run: "assignDriverToEmergency now newId requestId hospitalId driverId s = (Inr res, s')"
  from assign_commit [OF run] obtain rid did where
    ri: "uuid_in requestId = Some rid" and di: "uuid_in driverId = Some did"
    and new: "res_assignmentId res = newId"
    and fresh: "newId \<notin> set (map a_id (emergency_assignments s))"
    and r_old: "\<exists>r \<in> set (emergency_requests s). r_id r = rid"
    and d_old: "\<exists>d \<in> set (drivers s). d_id d = did"
    and s': "s' = update_drivers did (\<lambda>d. d\<lparr>d_is_available := False, d_updated_at := now\<rparr>)
            ((update_requests rid (\<lambda>r. r\<lparr>r_status := assigned, r_updated_at := now\<rparr>) s)
             \<lparr>emergency_assignments := emergency_assignments s @
               [\<lparr>a_id = newId, a_emergency_id = rid, a_driver_id = did,
                 a_assigned_at = Some now, a_accepted_at = None, a_pickup_at = None,
                 a_completed_at = None, a_status = assigned, a_notes = None\<rparr>]\<rparr>)"
    by blast
  let ?s1 = "update_requests rid (\<lambda>r. r\<lparr>r_status := assigned, r_updated_at := now\<rparr>) s"
  have reqs: "emergency_requests s' = emergency_requests ?s1"
    by (simp add: s')
  have drvs: "drivers s' =
     drivers (update_drivers did (\<lambda>d. d\<lparr>d_is_available := False, d_updated_at := now\<rparr>) s)"
    by (simp add: s' update_drivers_def update_requests_def)
  show "res_assignmentId res \<notin> set (map a_id (emergency_assignments s))"
    using new fresh by simp
  show "\<exists>a \<in> set (emergency_assignments s').
         a_id a = res_assignmentId res \<and> uuid_in requestId = Some (a_emergency_id a) \<and>
         uuid_in driverId = Some (a_driver_id a) \<and> a_status a = assigned \<and>
         a_assigned_at a = Some now"
    using new ri di by (simp add: s')
  have "map r_id (emergency_requests s') = map r_id (emergency_requests s)"
    unfolding reqs by (simp add: update_requests_ids)
  then have "set (map r_id (emergency_requests s')) = set (map r_id (emergency_requests s))"
    by simp
  moreover have "rid \<in> set (map r_id (emergency_requests s))"
    using r_old by auto
  ultimately have "\<exists>r \<in> set (emergency_requests s'). r_id r = rid"
    by (metis (no_types, lifting) image_iff set_map)
  then show "\<exists>r \<in> set (emergency_requests s'). uuid_in requestId = Some (r_id r)"
    using ri by auto
  show "\<forall>r \<in> set (emergency_requests s').
          uuid_in requestId = Some (r_id r) \<longrightarrow> r_status r = assigned"
    unfolding reqs ri by (auto dest!: update_requests_hit)
  have "map d_id (drivers s') = map d_id (drivers s)"
    unfolding drvs by (simp add: update_drivers_ids)
  then have "set (map d_id (drivers s')) = set (map d_id (drivers s))"
    by simp
  moreover have "did \<in> set (map d_id (drivers s))"
    using d_old by auto
  ultimately have "\<exists>d \<in> set (drivers s'). d_id d = did"
    by (metis (no_types, lifting) image_iff set_map)
  then show "\<exists>d \<in> set (drivers s'). uuid_in driverId = Some (d_id d)"
    using di by auto
  show "\<forall>d \<in> set (drivers s').
          uuid_in driverId = Some (d_id d) \<longrightarrow> \<not> d_is_available d"
    unfolding drvs di by (auto dest!: update_drivers_hit)
qed

lemma assign_sample:
  "assignDriverToEmergency 7 10 id_r1 id_u1 id_d1 (dispatch_store True True) =
     (Inr \<lparr>res_requestId = id_r1, res_assignmentId = 10, res_driverId = 7\<rparr>,
      \<lparr>hospitals = [sample_hospital 5 2],
       drivers = [(sample_driver 7 3 False True)\<lparr>d_updated_at := 7\<rparr>],
       emergency_requests = [(sample_request 8 assigned (Some 5))\<lparr>r_updated_at := 7\<rparr>],
       emergency_assignments = [(sample_assignment 10 8 7)\<lparr>a_assigned_at := Some 7\<rparr>]\<rparr>)"
  by (simp add: sample_defs dispatch_store_def assign_defs insert_assignment_def
        update_requests_def update_drivers_def Let_def uuid_in_samples)

lemma assign_sample_key_taken:
  "assignDriverToEmergency 7 10 id_r1 id_u1 id_d1
       (dispatch_store True True\<lparr>emergency_assignments := [sample_assignment 10 9 6]\<rparr>)
     = (Inl (ApiError 500 ''Failed to assign driver to emergency''),
        dispatch_store True True\<lparr>emergency_assignments := [sample_assignment 10 9 6]\<rparr>)"
  by (simp add: sample_defs dispatch_store_def assign_defs insert_assignment_def
        update_requests_def update_drivers_def Let_def uuid_in_samples)

theorem assignDriver_atomic_witness:
  "(\<exists>res s'. assignDriverToEmergency 7 10 id_r1 id_u1 id_d1 (dispatch_store True True)
        = (Inr res, s') \<and>
      res_assignmentId res = 10 \<and>
      map a_emergency_id (emergency_assignments s') = [8] \<and>
      map a_driver_id (emergency_assignments s') = [7] \<and>
      map a_status (emergency_assignments s') = [assigned] \<and>
      map a_assigned_at (emergency_assignments s') = [Some 7] \<and>
      map r_status (emergency_requests s') = [assigned] \<and>
      map d_is_available (drivers s') = [False]) \<and>
   assignDriverToEmergency 7 10 id_r1 id_u1 id_d1
       (dispatch_store True True\<lparr>emergency_assignments := [sample_assignment 10 9 6]\<rparr>)
     = (Inl (ApiError 500 ''Failed to assign driver to emergency''),
        dispatch_store True True\<lparr>emergency_assignments := [sample_assignment 10 9 6]\<rparr>)"
proof -
  let ?s = "dispatch_store True True"
  let ?t = "dispatch_store True True\<lparr>emergency_assignments := [sample_assignment 10 9 6]\<rparr>"
  obtain res s' where run: "assignDriverToEmergency 7 10 id_r1 id_u1 id_d1 ?s = (Inr res, s')"
    and s': "res_assignmentId res = 10"
      "map a_emergency_id (emergency_assignments s') = [8]"
      "map a_driver_id (emergency_assignments s') = [7]"
      "map a_status (emergency_assignments s') = [assigned]"
      "map a_assigned_at (emergency_assignments s') = [Some 7]"
      "map r_status (emergency_requests s') = [assigned]"
      "map d_is_available (drivers s') = [False]"
    using assign_sample by (simp add: sample_defs)
  from assignDriver_atomic [of 7 10 id_r1 id_u1 id_d1 ?s] run
  have "res_assignmentId res \<notin> set (map a_id (emergency_assignments ?s))"
    by blast
  moreover
  obtain e t' where fail: "assignDriverToEmergency 7 10 id_r1 id_u1 id_d1 ?t = (Inl e, t')"
    and e: "e = ApiError 500 ''Failed to assign driver to emergency''"
    using assign_sample_key_taken by simp
  from assignDriver_atomic [of 7 10 id_r1 id_u1 id_d1 ?t] fail
  have "t' = ?t"
    by blast
  ultimately show ?thesis
    using run s' fail e by simp
qed

subsection \<open>Progress of an assignment\<close>

lemma update_assignments_frame [simp]:
  "hospitals (update_assignments x f s) = hospitals s"
  "drivers (update_assignments x f s) = drivers s"
  "emergency_requests (update_assignments x f s) = emergency_requests s"
  by (simp_all add: update_assignments_def)

text \<open>
  Of the labels the store can return for the status of an assignment, the transition
  table has an entry for \<open>assigned\<close> only, and the one target it allows is \<open>en_route\<close>.
\<close>

lemma valid_transition_iff:
  "valid_transition (status_label current) status \<longleftrightarrow>
     current = assigned \<and> status = ''en_route''"
  by (cases current) (auto simp: valid_transition_def validStatusMap_def)

text \<open>
  Every statement that \<open>updateAssignmentStatus\<close> assembles names \<open>updated_at\<close>, which is
  not a column of \<open>emergency_assignments\<close>: the store raises.
\<close>

lemma update_assignment_raises:
  "update_assignment now aid status s =
     Inl (PgError ''column of relation emergency_assignments does not exist'')"
  by (simp add: update_assignment_def updateAssignmentQuery_columns_def
        emergency_assignments_columns_def)

lemma advance_body_raises:
  "\<exists>e. updateAssignmentStatus_body now assignmentId driverId status s = Inl e"
  by (simp add: updateAssignmentStatus_body_def uuid_param_def update_assignment_raises
        Let_def split: option.splits list.splits)

text \<open>No call of \<open>updateAssignmentStatus\<close> commits: each ends in an error and a rollback.\<close>

lemma advance_rolls_back:
  "\<exists>e. updateAssignmentStatus now assignmentId driverId status s = (Inl e, s)"
proof -
  obtain e where "updateAssignmentStatus_body now assignmentId driverId status s = Inl e"
    using advance_body_raises by blast
  then show ?thesis
    by (simp add: updateAssignmentStatus_def transaction_def)
qed

lemma advance_store [simp]:
  "snd (updateAssignmentStatus now assignmentId driverId status s) = s"
  using advance_rolls_back [of now assignmentId driverId status s] by auto

lemma advance_valid:
  assumes "uuid_in driverId = Some uid"
      and "filter (\<lambda>d. d_user_id d = uid) (drivers s) = driver # ds"
      and "uuid_in assignmentId = Some aid"
      and "filter (\<lambda>a. a_id a = aid \<and> a_driver_id a = d_id driver)
                  (emergency_assignments s) = assignment # rest"
      and "a_status assignment = assigned"
  shows "updateAssignmentStatus now assignmentId driverId ''en_route'' s =
           (Inl (ApiError 500 ''Failed to update assignment status''), s)"
  using assms
  by (simp add: updateAssignmentStatus_def updateAssignmentStatus_body_def transaction_def
        rethrow_def valid_transition_def validStatusMap_def update_assignment_raises)

lemma advance_invalid:
  assumes "uuid_in driverId = Some uid"
      and "filter (\<lambda>d. d_user_id d = uid) (drivers s) = driver # ds"
      and "uuid_in assignmentId = Some aid"
      and "filter (\<lambda>a. a_id a = aid \<and> a_driver_id a = d_id driver)
                  (emergency_assignments s) = assignment # rest"
      and "\<not> (a_status assignment = assigned \<and> status = ''en_route'')"
  shows "updateAssignmentStatus now assignmentId driverId status s =
           (Inl (ApiError 400 (''Cannot transition from '' @
                   status_label (a_status assignment) @ '' to '' @ status)), s)"
  using assms
  by (simp add: updateAssignmentStatus_def updateAssignmentStatus_body_def transaction_def
        rethrow_def valid_transition_iff)

lemma on_duty_rows:
  "filter (\<lambda>d. d_user_id d = 3) (drivers on_duty_store) = [sample_driver 7 3 False True]"
  "filter (\<lambda>a. a_id a = 10 \<and> a_driver_id a = d_id (sample_driver 7 3 False True))
          (emergency_assignments on_duty_store) = [sample_assignment 10 8 7]"
  "a_status (sample_assignment 10 8 7) = assigned"
  by (simp_all add: on_duty_store_def sample_defs)

text \<open>
  Claim C2 fails on the tables the repository declares. Driver \<open>d1\<close> holds assignment
  \<open>a1\<close> in status Assigned, as \<open>assignDriver\<close> stored it, and asks for the one step
  forward, to en route. The transition table allows the step, so by the claim the call
  succeeds. The code answers 500 and rolls back: the statement it sends sets the columns
  \<open>en_route_at\<close> and \<open>updated_at\<close>, which \<open>emergency_assignments\<close> does not have, and
  the store raises. The refusal of every other target with Conflict, the second half of
  the claim, is what the code does.
\<close>

theorem advance_one_step_rejected:
  "map a_id (emergency_assignments on_duty_store) = [10] \<and>
   map a_driver_id (emergency_assignments on_duty_store) = [7] \<and>
   map a_status (emergency_assignments on_duty_store) = [assigned] \<and>
   map d_id (drivers on_duty_store) = [7] \<and>
   map d_user_id (drivers on_duty_store) = [3] \<and>
   uuid_in id_a1 = Some 10 \<and> uuid_in id_u2 = Some 3 \<and>
   valid_transition ''assigned'' ''en_route'' \<and>
   updateAssignmentStatus 4 id_a1 id_u2 ''en_route'' on_duty_store =
     (Inl (ApiError 500 ''Failed to update assignment status''), on_duty_store) \<and>
   updateAssignmentStatus 4 id_a1 id_u2 ''arrived'' on_duty_store =
     (Inl (ApiError 400 ''Cannot transition from assigned to arrived''), on_duty_store)"
proof -
  have "updateAssignmentStatus 4 id_a1 id_u2 ''en_route'' on_duty_store =
     (Inl (ApiError 500 ''Failed to update assignment status''), on_duty_store)"
    by (rule advance_valid [OF uuid_in_samples(3) on_duty_rows(1) uuid_in_samples(10)
          on_duty_rows(2) on_duty_rows(3)])
  moreover have "updateAssignmentStatus 4 id_a1 id_u2 ''arrived'' on_duty_store =
     (Inl (ApiError 400 ''Cannot transition from assigned to arrived''), on_duty_store)"
    using advance_invalid [OF uuid_in_samples(3) on_duty_rows(1) uuid_in_samples(10)
          on_duty_rows(2), of "''arrived''" 4]
    by (simp add: on_duty_rows)
  ultimately show ?thesis
    by (simp add: uuid_in_samples on_duty_store_def sample_defs valid_transition_def
          validStatusMap_def)
qed

subsection \<open>Driver availability\<close>

text \<open>
  \<open>'en_route'\<close> and \<open>'arrived'\<close> are not labels of the type of the \<open>status\<close> column, so
  the query for the active assignments of a driver raises, whatever the rows are.
\<close>

lemma activeAssignmentQuery_raises:
  "activeAssignmentQuery driver s =
     Inl (PgError ''invalid input value for enum emergency_status'')"
  by (simp add: activeAssignmentQuery_def activeAssignmentQuery_labels_def
        emergency_status_labels_def)

lemma availability_off_raises:
  "uuid_in driverId = Some uid \<Longrightarrow>
   filter (\<lambda>d. d_user_id d = uid) (drivers s) = driver # ds \<Longrightarrow>
   updateAvailabilityStatus now driverId False s =
     (Inl (ApiError 500 ''Failed to update driver availability status''), s)"
  by (simp add: updateAvailabilityStatus_def updateAvailabilityStatus_body_def
        transaction_def rethrow_def activeAssignmentQuery_raises)

lemma availability_result:
  assumes "updateAvailabilityStatus now driverId isAvailable s = (x, s')"
  shows "hospitals s' = hospitals s \<and> emergency_requests s' = emergency_requests s \<and>
         emergency_assignments s' = emergency_assignments s"
  using assms
  by (auto simp: updateAvailabilityStatus_def updateAvailabilityStatus_body_def
        transaction_def uuid_param_def activeAssignmentQuery_raises
        split: option.splits list.splits if_splits)

subsection \<open>Hospital matcher\<close>

lemma set_slice0: "set (slice0 xs n) \<subseteq> set xs"
  by (auto simp: slice0_def dest: in_set_takeD)

lemma sorted_slice0: "sorted (map f xs) \<Longrightarrow> sorted (map f (slice0 xs n))"
  by (simp add: slice0_def take_map [symmetric] del: take_map)

lemma length_slice0: "0 \<le> n \<Longrightarrow> int (length (slice0 xs n)) \<le> n"
  by (simp add: slice0_def)

lemma nearby_candidate_row:
  assumes "nearby_candidate s latitude longitude h = Some c"
  shows "nh_id c = h_id h \<and> h_is_active h \<and> h_latitude h = Some (nh_latitude c) \<and>
         h_longitude h = Some (nh_longitude c) \<and>
         nh_distance c = calculateDistance latitude longitude (nh_latitude c) (nh_longitude c)"
  using assms
  by (auto simp: nearby_candidate_def split: option.splits if_splits)

lemma nearby_in_range:
  "set (findNearbyHospitals s latitude longitude maxDistance limit) \<subseteq>
   {c \<in> set (List.map_filter (nearby_candidate s latitude longitude) (hospitals s)).
      nh_distance c \<le> maxDistance}"
  using set_slice0 by (fastforce simp: findNearbyHospitals_def)

text \<open>
  Claim C6, as amended. For every store, pickup point, maximal distance and limit, each
  candidate that \<open>findNearbyHospitals\<close> returns stems from a hospital that is active and
  has both coordinates, and carries the distance from the pickup point to that hospital;
  that distance is at most \<open>maxDistance\<close>; and the list is sorted by non-decreasing
  distance. For every limit that is not negative the list has at most \<open>limit\<close> entries.
\<close>

theorem findNearbyHospitals_result:
  "(\<forall>c \<in> set (findNearbyHospitals s latitude longitude maxDistance limit).
      \<exists>h \<in> set (hospitals s).
        nh_id c = h_id h \<and> h_is_active h \<and> h_latitude h = Some (nh_latitude c) \<and>
        h_longitude h = Some (nh_longitude c) \<and>
        nh_distance c =
          calculateDistance latitude longitude (nh_latitude c) (nh_longitude c)) \<and>
   (\<forall>c \<in> set (findNearbyHospitals s latitude longitude maxDistance limit).
      nh_distance c \<le> maxDistance) \<and>
   sorted (map nh_distance (findNearbyHospitals s latitude longitude maxDistance limit)) \<and>
   (0 \<le> limit \<longrightarrow>
      int (length (findNearbyHospitals s latitude longitude maxDistance limit)) \<le> limit)"
proof (intro conjI ballI impI)
  fix c
  assume "c \<in> set (findNearbyHospitals s latitude longitude maxDistance limit)"
  with nearby_in_range
  have "c \<in> set (List.map_filter (nearby_candidate s latitude longitude) (hospitals s))"
    by blast
  then obtain h where "h \<in> set (hospitals s)"
    and "nearby_candidate s latitude longitude h = Some c"
    by (auto simp: map_filter_def)
  then show "\<exists>h \<in> set (hospitals s).
              nh_id c = h_id h \<and> h_is_active h \<and> h_latitude h = Some (nh_latitude c) \<and>
              h_longitude h = Some (nh_longitude c) \<and>
              nh_distance c =
                calculateDistance latitude longitude (nh_latitude c) (nh_longitude c)"
    using nearby_candidate_row by blast
next
  fix c
  assume "c \<in> set (findNearbyHospitals s latitude longitude maxDistance limit)"
  with nearby_in_range show "nh_distance c \<le> maxDistance"
    by blast
next
  show "sorted (map nh_distance (findNearbyHospitals s latitude longitude maxDistance limit))"
    unfolding findNearbyHospitals_def by (rule sorted_slice0) simp
next
  assume "0 \<le> limit"
  then show "int (length (findNearbyHospitals s latitude longitude maxDistance limit)) \<le> limit"
    unfolding findNearbyHospitals_def by (rule length_slice0)
qed

lemma distance_same_point: "calculateDistance 0 0 0 0 = 0"
  by (simp add: calculateDistance_def toRadians_def atan2_def)

text \<open>Both sample hospitals are candidates at distance 0; the limit cuts one off.\<close>

lemma two_candidates_cut:
  "length (findNearbyHospitals two_hospitals_store 0 0 50 1) = 1"
  "length (findNearbyHospitals two_hospitals_store 0 0 50 (- 1)) = 1"
  "map nh_distance (findNearbyHospitals two_hospitals_store 0 0 50 1) = [0]"
  "length (hospitals two_hospitals_store) = 2"
  by (simp_all add: findNearbyHospitals_def slice0_def map_filter_def nearby_candidate_def
        distance_same_point sample_defs two_hospitals_store_def)

theorem findNearbyHospitals_result_witness:
  "(0::int) \<le> 1 \<and>
   length (hospitals two_hospitals_store) = 2 \<and>
   length (findNearbyHospitals two_hospitals_store 0 0 50 1) = 1 \<and>
   map nh_distance (findNearbyHospitals two_hospitals_store 0 0 50 1) = [0] \<and>
   sorted (map nh_distance (findNearbyHospitals two_hospitals_store 0 0 50 1)) \<and>
   int (length (findNearbyHospitals two_hospitals_store 0 0 50 1)) \<le> 1"
proof -
  have "sorted (map nh_distance (findNearbyHospitals two_hospitals_store 0 0 50 1))"
    and "int (length (findNearbyHospitals two_hospitals_store 0 0 50 1)) \<le> 1"
    using findNearbyHospitals_result [of two_hospitals_store 0 0 50 1] by simp_all
  then show ?thesis
    using two_candidates_cut by simp
qed

text \<open>
  Claim C6 as stated fails for a negative limit, which the controller passes on from the
  query string: with limit \<open>-1\<close> and two hospitals in range, \<open>slice(0, -1)\<close> returns one
  hospital, and one is more than the limit.
\<close>

theorem findNearbyHospitals_limit_counterexample:
  "length (hospitals two_hospitals_store) = 2 \<and>
   length (findNearbyHospitals two_hospitals_store 0 0 50 (- 1)) = 1 \<and>
   \<not> int (length (findNearbyHospitals two_hospitals_store 0 0 50 (- 1))) \<le> - 1"
  by (simp add: two_candidates_cut)

subsection \<open>Sequences of operations\<close>

lemma create_result:
  "createEmergencyRequest now newId requestData s = (x, s') \<Longrightarrow>
   hospitals s' = hospitals s \<and> drivers s' = drivers s \<and>
   emergency_assignments s' = emergency_assignments s \<and>
   (emergency_requests s' = emergency_requests s \<or>
    (\<exists>row. r_status row = pending \<and>
           emergency_requests s' = emergency_requests s @ [row]))"
  by (auto simp: createEmergencyRequest_def createEmergencyRequest_body_def uuid_param_def
        split: if_splits option.splits)

lemma accept_requests:
  assumes "r \<in> set (emergency_requests (snd (acceptEmergencyRequest now requestId hospitalId s)))"
  shows "r \<in> set (emergency_requests s) \<or> r_status r = accepted"
proof -
  obtain res s' where run: "acceptEmergencyRequest now requestId hospitalId s = (res, s')"
    by (cases "acceptEmergencyRequest now requestId hospitalId s")
  show ?thesis
  proof (cases res)
    case (Inl e)
    with run have "s' = s"
      unfolding acceptEmergencyRequest_def by (auto dest: transaction_rollback)
    with assms run show ?thesis by simp
  next
    case (Inr x)
    with run accept_commit [of now requestId hospitalId s x s'] assms show ?thesis
      by (auto simp: acceptEmergencyRequest_update_def dest!: update_requests_cases)
  qed
qed

lemma assign_requests:
  assumes "r \<in> set (emergency_requests
             (snd (assignDriverToEmergency now newId requestId hospitalId driverId s)))"
  shows "r \<in> set (emergency_requests s) \<or> r_status r = assigned"
proof -
  obtain res s' where
    run: "assignDriverToEmergency now newId requestId hospitalId driverId s = (res, s')"
    by (cases "assignDriverToEmergency now newId requestId hospitalId driverId s")
  show ?thesis
  proof (cases res)
    case (Inl e)
    with run have "s' = s"
      unfolding assignDriverToEmergency_def by (auto dest: transaction_rollback)
    with assms run show ?thesis by simp
  next
    case (Inr x)
    with run obtain rid where "emergency_requests s' =
      emergency_requests
        (update_requests rid (\<lambda>r. r\<lparr>r_status := assigned, r_updated_at := now\<rparr>) s)"
      using assign_commit [of now newId requestId hospitalId driverId s x s'] by auto
    with run assms show ?thesis
      by (auto dest!: update_requests_cases)
  qed
qed

lemma availability_requests:
  "emergency_requests (snd (updateAvailabilityStatus now driverId isAvailable s)) =
   emergency_requests s"
  using availability_result [of now driverId isAvailable s]
  by (cases "updateAvailabilityStatus now driverId isAvailable s") simp

lemma create_requests:
  assumes "r \<in> set (emergency_requests (snd (createEmergencyRequest now newId requestData s)))"
  shows "r \<in> set (emergency_requests s) \<or> r_status r = pending"
proof -
  obtain res s' where run: "createEmergencyRequest now newId requestData s = (res, s')"
    by (cases "createEmergencyRequest now newId requestData s")
  from create_result [OF run] assms run show ?thesis
    by auto
qed

lemma apply_op_requests:
  "r \<in> set (emergency_requests (apply_op op s)) \<Longrightarrow>
   r \<in> set (emergency_requests s) \<or> status_written_by op = Some (r_status r)"
  by (cases op)
     (auto dest: create_requests accept_requests assign_requests
        simp: availability_requests)

lemma apply_op_no_in_progress: "no_in_progress s \<Longrightarrow> no_in_progress (apply_op op s)"
  unfolding no_in_progress_def
proof
  fix r
  assume old: "\<forall>r \<in> set (emergency_requests s). r_status r \<noteq> in_progress"
    and "r \<in> set (emergency_requests (apply_op op s))"
  then consider "r \<in> set (emergency_requests s)" | "status_written_by op = Some (r_status r)"
    using apply_op_requests by blast
  then show "r_status r \<noteq> in_progress"
  proof cases
    case 1
    with old show ?thesis by blast
  next
    case 2
    then show ?thesis by (cases op) auto
  qed
qed

lemma run_no_in_progress: "no_in_progress s \<Longrightarrow> no_in_progress (run ops s)"
  unfolding run_def
  by (induction ops arbitrary: s) (simp_all add: apply_op_no_in_progress)

lemmas service_defs =
  createEmergencyRequest_def createEmergencyRequest_body_def
  accept_defs acceptEmergencyRequest_update_def
  assign_defs insert_assignment_def
  updateAvailabilityStatus_def updateAvailabilityStatus_body_def
  update_requests_def update_drivers_def Let_def

text \<open>
  The sample journey stops where the driver takes over: the request is created, accepted
  and assigned, and none of the driver's three calls changes the store.
\<close>

lemma assigned_result:
  "run (take 3 journey) idle_store =
     \<lparr>hospitals = [sample_hospital 5 2],
      drivers = [(sample_driver 7 3 False True)\<lparr>d_updated_at := 3\<rparr>],
      emergency_requests =
        [(sample_request 8 assigned (Some 5))\<lparr>r_created_at := 1, r_updated_at := 3\<rparr>],
      emergency_assignments = [(sample_assignment 10 8 7)\<lparr>a_assigned_at := Some 3\<rparr>]\<rparr>"
  by (simp add: run_def journey_def idle_store_def sample_defs service_defs uuid_in_samples)

lemma journey_result: "run journey idle_store = run (take 3 journey) idle_store"
  by (simp add: run_def journey_def)

lemma journey_rows:
  "map r_status (emergency_requests (run journey idle_store)) = [assigned]"
  "map d_id (drivers (run journey idle_store)) = [7]"
  "map d_is_available (drivers (run journey idle_store)) = [False]"
  "map a_driver_id (emergency_assignments (run journey idle_store)) = [7]"
  "map a_status (emergency_assignments (run journey idle_store)) = [assigned]"
  "map a_completed_at (emergency_assignments (run journey idle_store)) = [None]"
  by (simp_all add: journey_result assigned_result sample_defs)

text \<open>
  Claim C10. Whatever request row a call of an operation writes carries the status that
  belongs to the operation: Pending for creation, Accepted for acceptance, Assigned for
  assignment, Completed for the completion of an assignment; every other row is as it
  was. Hence from a store without a request in progress no sequence of calls of the five
  operations reaches a store with a request in progress.
\<close>

theorem in_progress_unreachable:
  "(\<forall>r \<in> set (emergency_requests (apply_op op s)).
      r \<in> set (emergency_requests s) \<or> status_written_by op = Some (r_status r)) \<and>
   (no_in_progress s \<longrightarrow> no_in_progress (run ops s))"
  using apply_op_requests run_no_in_progress by blast

theorem in_progress_unreachable_witness:
  "no_in_progress idle_store \<and>
   emergency_requests idle_store = [] \<and>
   map r_status (emergency_requests (apply_op (CreateRequest 1 8 sample_data) idle_store))
     = [pending] \<and>
   map r_status (emergency_requests (run journey idle_store)) = [assigned] \<and>
   no_in_progress (run journey idle_store)"
proof -
  have start: "no_in_progress idle_store" "emergency_requests idle_store = []"
    by (simp_all add: no_in_progress_def idle_store_def)
  have first: "map r_status
      (emergency_requests (apply_op (CreateRequest 1 8 sample_data) idle_store)) = [pending]"
    by (simp add: idle_store_def sample_defs service_defs uuid_in_samples)
  have "no_in_progress (run journey idle_store)"
    using in_progress_unreachable [of "CreateRequest 1 8 sample_data" idle_store journey] start
    by blast
  then show ?thesis
    using start first journey_rows by simp
qed


subsection \<open>Availability of drivers over sequences\<close>

lemma active_assigned [simp]: "active_status assigned"
  by (simp add: active_status_def activeAssignmentQuery_labels_def)

lemma same_key_same_row:
  "distinct (map key xs) \<Longrightarrow> x \<in> set xs \<Longrightarrow> y \<in> set xs \<Longrightarrow> key x = key y \<Longrightarrow> x = y"
  by (meson distinct_map inj_onD)

lemma availability_inv_cong:
  "drivers s' = drivers s \<Longrightarrow> emergency_assignments s' = emergency_assignments s \<Longrightarrow>
   availability_inv s' = availability_inv s"
  by (simp add: availability_inv_def active_count_def)

lemma availability_inv_assign:
  assumes inv: "availability_inv s"
  shows "availability_inv (snd (assignDriverToEmergency now newId requestId hospitalId driverId s))"
proof -
  obtain res s' where
    run: "assignDriverToEmergency now newId requestId hospitalId driverId s = (res, s')"
    by (cases "assignDriverToEmergency now newId requestId hospitalId driverId s")
  show ?thesis
  proof (cases res)
    case (Inl e)
    with run have "s' = s"
      unfolding assignDriverToEmergency_def by (auto dest: transaction_rollback)
    with inv run show ?thesis by simp
  next
    case (Inr x)
    with run have committed:
      "assignDriverToEmergency now newId requestId hospitalId driverId s = (Inr x, s')"
      by simp
    from assign_commit [OF committed] obtain rid did and free :: driver_row where
      fresh: "newId \<notin> set (map a_id (emergency_assignments s))"
      and free: "free \<in> set (drivers s)" "d_id free = did" "d_is_available free"
      and s': "s' = update_drivers did (\<lambda>d. d\<lparr>d_is_available := False, d_updated_at := now\<rparr>)
            ((update_requests rid (\<lambda>r. r\<lparr>r_status := assigned, r_updated_at := now\<rparr>) s)
             \<lparr>emergency_assignments := emergency_assignments s @
               [\<lparr>a_id = newId, a_emergency_id = rid, a_driver_id = did,
                 a_assigned_at = Some now, a_accepted_at = None, a_pickup_at = None,
                 a_completed_at = None, a_status = assigned, a_notes = None\<rparr>]\<rparr>)"
      by blast
    have drvs: "drivers s' =
        map (\<lambda>d. if d_id d = did
                  then d\<lparr>d_is_available := False, d_updated_at := now\<rparr> else d) (drivers s)"
      by (simp add: s' update_drivers_def update_requests_def)
    have asgs: "emergency_assignments s' = emergency_assignments s @
               [\<lparr>a_id = newId, a_emergency_id = rid, a_driver_id = did,
                 a_assigned_at = Some now, a_accepted_at = None, a_pickup_at = None,
                 a_completed_at = None, a_status = assigned, a_notes = None\<rparr>]"
      by (simp add: s' update_drivers_def update_requests_def)
    have count: "active_count s' d = active_count s d + (if d = did then 1 else 0)" for d
      by (auto simp: active_count_def asgs)
    have d_ids: "map d_id (drivers s') = map d_id (drivers s)"
      by (simp add: drvs)
    have "distinct (map d_id (drivers s'))"
      using inv by (simp add: d_ids availability_inv_def)
    moreover have "distinct (map a_id (emergency_assignments s'))"
      using inv fresh by (simp add: asgs availability_inv_def)
    moreover have "\<forall>d \<in> set (drivers s').
        active_count s' (d_id d) = (if d_is_available d then 0 else 1)"
    proof
      fix d
      assume "d \<in> set (drivers s')"
      then obtain d0 where d0: "d0 \<in> set (drivers s)"
        and d: "d = (if d_id d0 = did
                     then d0\<lparr>d_is_available := False, d_updated_at := now\<rparr> else d0)"
        by (auto simp: drvs)
      have old: "active_count s (d_id d0) = (if d_is_available d0 then 0 else 1)"
        using inv d0 by (simp add: availability_inv_def)
      show "active_count s' (d_id d) = (if d_is_available d then 0 else 1)"
      proof (cases "d_id d0 = did")
        case True
        with inv d0 free have "d0 = free"
          by (auto simp: availability_inv_def intro: same_key_same_row)
        with old free have "active_count s did = 0"
          by simp
        with True d show ?thesis by (simp add: count)
      next
        case False
        with d old show ?thesis by (simp add: count)
      qed
    qed
    ultimately have "availability_inv s'"
      by (simp add: availability_inv_def)
    with run show ?thesis by simp
  qed
qed

lemma availability_inv_create:
  "availability_inv s \<Longrightarrow>
   availability_inv (snd (createEmergencyRequest now newId requestData s))"
proof -
  assume inv: "availability_inv s"
  obtain res s' where run: "createEmergencyRequest now newId requestData s = (res, s')"
    by (cases "createEmergencyRequest now newId requestData s")
  from create_result [OF run] have "availability_inv s' = availability_inv s"
    by (intro availability_inv_cong) simp_all
  with inv run show ?thesis by simp
qed

lemma availability_inv_accept:
  "availability_inv s \<Longrightarrow>
   availability_inv (snd (acceptEmergencyRequest now requestId hospitalId s))"
proof -
  assume inv: "availability_inv s"
  obtain res s' where run: "acceptEmergencyRequest now requestId hospitalId s = (res, s')"
    by (cases "acceptEmergencyRequest now requestId hospitalId s")
  have "drivers s' = drivers s \<and> emergency_assignments s' = emergency_assignments s"
  proof (cases res)
    case (Inl e)
    with run have "s' = s"
      unfolding acceptEmergencyRequest_def by (auto dest: transaction_rollback)
    then show ?thesis by simp
  next
    case (Inr x)
    with run accept_commit [of now requestId hospitalId s x s'] show ?thesis
      by auto
  qed
  then have "availability_inv s' = availability_inv s"
    by (intro availability_inv_cong) simp_all
  with inv run show ?thesis by simp
qed

lemma availability_inv_step:
  "availability_inv s \<Longrightarrow> \<not> is_set_availability op \<Longrightarrow> availability_inv (apply_op op s)"
  by (cases op)
     (simp_all add: availability_inv_create availability_inv_accept availability_inv_assign)

lemma availability_inv_run:
  "availability_inv s \<Longrightarrow> \<forall>op \<in> set ops. \<not> is_set_availability op \<Longrightarrow>
   availability_inv (run ops s)"
  unfolding run_def
  by (induction ops arbitrary: s) (simp_all add: availability_inv_step)

text \<open>
  Claim C7, as amended. Start from a store with unique driver and assignment ids in which
  every available driver has no non-terminal assignment and every unavailable driver has
  exactly one. After every sequence of calls of \<open>createRequest\<close>, \<open>acceptRequest\<close>,
  \<open>assignDriver\<close> and \<open>advanceAssignment\<close>, whether they succeed or fail, every driver
  that is not available has exactly one non-terminal assignment, and every driver without
  a non-terminal assignment is available. Calls of \<open>setAvailability\<close> are excluded.
\<close>

theorem availability_invariant:
  assumes "availability_inv s" and "\<forall>op \<in> set ops. \<not> is_set_availability op"
  shows "\<forall>d \<in> set (drivers (run ops s)).
           (\<not> d_is_available d \<longrightarrow> active_count (run ops s) (d_id d) = 1) \<and>
           (active_count (run ops s) (d_id d) = 0 \<longrightarrow> d_is_available d)"
proof
  fix d
  assume "d \<in> set (drivers (run ops s))"
  moreover have "availability_inv (run ops s)"
    using assms by (rule availability_inv_run)
  ultimately have "active_count (run ops s) (d_id d) = (if d_is_available d then 0 else 1)"
    by (simp add: availability_inv_def)
  then show "(\<not> d_is_available d \<longrightarrow> active_count (run ops s) (d_id d) = 1) \<and>
           (active_count (run ops s) (d_id d) = 0 \<longrightarrow> d_is_available d)"
    by (simp split: if_splits)
qed

theorem availability_invariant_witness:
  "availability_inv idle_store \<and>
   map d_id (drivers (run journey idle_store)) = [7] \<and>
   map d_is_available (drivers (run journey idle_store)) = [False] \<and>
   active_count (run journey idle_store) 7 = 1 \<and>
   map d_is_available (drivers (run (take 2 journey) idle_store)) = [True] \<and>
   active_count (run (take 2 journey) idle_store) 7 = 0"
proof -
  have start: "availability_inv idle_store"
    by (simp add: availability_inv_def idle_store_def sample_driver_def active_count_def)
  have ops: "\<forall>op \<in> set journey. \<not> is_set_availability op"
    by (simp add: journey_def)
  have ops2: "\<forall>op \<in> set (take 2 journey). \<not> is_set_availability op"
    by (simp add: journey_def)
  have two: "drivers (run (take 2 journey) idle_store) = [sample_driver 7 3 True True]"
    "emergency_assignments (run (take 2 journey) idle_store) = []"
    by (simp_all add: run_def journey_def idle_store_def sample_defs service_defs
          uuid_in_samples)
  show ?thesis
    using availability_invariant [OF start ops] availability_invariant [OF start ops2] start
    by (simp add: journey_result assigned_result two active_count_def sample_defs)
qed

text \<open>
  Claim C7 as stated fails: \<open>setAvailability\<close> with \<open>true\<close> is written without a look at
  the driver's assignments. A driver on an assignment can switch back to available and be
  assigned to a second request; the driver is then unavailable with two non-terminal
  assignments.
\<close>

theorem availability_counterexample:
  "map d_is_available (drivers idle_store) = [True] \<and>
   emergency_assignments idle_store = [] \<and>
   map d_id (drivers (run double_booking idle_store)) = [7] \<and>
   map d_is_available (drivers (run double_booking idle_store)) = [False] \<and>
   map a_driver_id (emergency_assignments (run double_booking idle_store)) = [7, 7] \<and>
   map a_status (emergency_assignments (run double_booking idle_store))
     = [assigned, assigned] \<and>
   active_count (run double_booking idle_store) 7 = 2"
  by (simp add: run_def double_booking_def idle_store_def sample_defs service_defs
        active_count_def uuid_in_samples)

subsection \<open>Racing acceptances\<close>

text \<open>
  A single call scheduled alone, its checks and then its update, is the sequential
  \<open>acceptEmergencyRequest\<close>.
\<close>

lemma race_alone:
  "race [c] [Rd 0, Wr 0] s =
     ([Answered (fst (acceptEmergencyRequest (c_now c) (c_requestId c) (c_hospitalId c) s))],
      snd (acceptEmergencyRequest (c_now c) (c_requestId c) (c_hospitalId c) s))"
  by (cases "acceptEmergencyRequest_guards (c_requestId c) (c_hospitalId c) s")
     (auto simp: race_def race_step_def acceptEmergencyRequest_def
        acceptEmergencyRequest_body_def transaction_def)

lemma contested_guards:
  "acceptEmergencyRequest_guards id_r1 id_u1 contested_store = Inr (8, 5)"
  "acceptEmergencyRequest_guards id_r1 id_u3 contested_store = Inr (8, 6)"
  "acceptEmergencyRequest_guards id_r1 id_u3
     (acceptEmergencyRequest_update 2 8 5 contested_store) =
     Inl (Api (ApiError 400 ''Emergency request is no longer pending''))"
  by (simp_all add: acceptEmergencyRequest_guards_def acceptEmergencyRequest_update_def
        update_requests_def contested_store_def sample_defs uuid_in_samples)

text \<open>
  Claim C9 fails for \<open>acceptRequest\<close>. Request \<open>r1\<close> is Pending and the users of the
  hospitals \<open>h1\<close> and \<open>h2\<close> accept it at the same time. When both calls run their checks
  before either writes, both find the request pending, both update it and both answer
  with success; the request ends bound to \<open>h2\<close>, whose update came last, and the
  acceptance of \<open>h1\<close> is lost. Run one after the other, the second call is refused with
  Conflict.
\<close>

theorem accept_race_two_successes:
  "map r_status (emergency_requests contested_store) = [pending] \<and>
   fst (race both_accept [Rd 0, Rd 1, Wr 0, Wr 1] contested_store) =
     [Answered (Inr id_r1), Answered (Inr id_r1)] \<and>
   map r_status
     (emergency_requests (snd (race both_accept [Rd 0, Rd 1, Wr 0, Wr 1] contested_store))) =
     [accepted] \<and>
   map r_hospital_id
     (emergency_requests (snd (race both_accept [Rd 0, Rd 1, Wr 0, Wr 1] contested_store))) =
     [Some 6] \<and>
   fst (race both_accept [Rd 0, Wr 0, Rd 1, Wr 1] contested_store) =
     [Answered (Inr id_r1),
      Answered (Inl (ApiError 400 ''Emergency request is no longer pending''))] \<and>
   map r_hospital_id
     (emergency_requests (snd (race both_accept [Rd 0, Wr 0, Rd 1, Wr 1] contested_store))) =
     [Some 5]"
  by (simp add: race_def race_step_def both_accept_def contested_guards rethrow_def)
     (simp add: acceptEmergencyRequest_update_def update_requests_def contested_store_def
        sample_defs)

subsection \<open>Timestamps of an assignment\<close>

text \<open>
  Claim C8 fails on the table the repository declares. For the step to en route the
  service's statement sets \<open>en_route_at\<close> and \<open>updated_at\<close>, for the step to arrived
  \<open>arrived_at\<close> and \<open>updated_at\<close>; none of them is a column of \<open>emergency_assignments\<close> in
  the migration, which declares \<open>accepted_at\<close> and \<open>pickup_at\<close>, and neither \<open>en_route\<close>
  nor \<open>arrived\<close> is a label of the enum of its \<open>status\<close> column. The store rejects such
  a statement, the handler of \<open>updateAssignmentStatus\<close> rolls back and answers 500, and
  the timestamps of these two steps are never set: the statement raises whatever the
  status asked for, the driver of assignment \<open>a1\<close> who asks for en route gets the 500,
  and no call leaves an assignment other than it found it.
\<close>

theorem stamp_columns_undeclared:
  "''en_route_at'' \<in> set (updateAssignmentQuery_columns ''en_route'') \<and>
   ''en_route_at'' \<notin> set emergency_assignments_columns \<and>
   ''arrived_at'' \<in> set (updateAssignmentQuery_columns ''arrived'') \<and>
   ''arrived_at'' \<notin> set emergency_assignments_columns \<and>
   ''updated_at'' \<in> set (updateAssignmentQuery_columns ''completed'') \<and>
   ''updated_at'' \<notin> set emergency_assignments_columns \<and>
   ''en_route'' \<notin> set emergency_status_labels \<and>
   ''arrived'' \<notin> set emergency_status_labels \<and>
   update_assignment now aid status s =
     Inl (PgError ''column of relation emergency_assignments does not exist'') \<and>
   updateAssignmentStatus 4 id_a1 id_u2 ''en_route'' on_duty_store =
     (Inl (ApiError 500 ''Failed to update assignment status''), on_duty_store) \<and>
   emergency_assignments (snd (updateAssignmentStatus now assignmentId driverId status s)) =
     emergency_assignments s"
proof -
  have "updateAssignmentStatus 4 id_a1 id_u2 ''en_route'' on_duty_store =
     (Inl (ApiError 500 ''Failed to update assignment status''), on_duty_store)"
    by (rule advance_valid [OF uuid_in_samples(3) on_duty_rows(1) uuid_in_samples(10)
          on_duty_rows(2) on_duty_rows(3)])
  then show ?thesis
    by (simp add: updateAssignmentQuery_columns_def emergency_assignments_columns_def
          emergency_status_labels_def update_assignment_raises)
qed

end
